theory Spec2Isabelle
  imports Main
begin

section \<open>The upload endpoint \<^verbatim>\<open>functions/api/upload.js\<close>\<close>

text \<open>
  The handler \<^verbatim>\<open>onRequestPost\<close> is a straight-line asynchronous procedure: it reads
  its configuration and the submitted form, makes up to five HTTP calls and shapes a
  response. The embedding makes the three effects of the JavaScript explicit:
  \<^item> every \<^verbatim>\<open>fetch\<close> appends its request to a trace of outbound calls, and the
    outcome of the call is given by the network, a function of the calls made so far;
  \<^item> every exception is the \<open>Inl\<close> of a sum, so that each \<^verbatim>\<open>try\<close>/\<^verbatim>\<open>catch\<close> is a
    case distinction;
  \<^item> \<^verbatim>\<open>await\<close> is sequencing.
  Logging (\<^verbatim>\<open>console.log\<close>, \<^verbatim>\<open>console.error\<close>) has no effect on the outcome and is left out.
\<close>

subsection \<open>JavaScript values\<close>

text \<open>
  The values the handler reads from parsed JSON and writes into JSON bodies. Numbers are
  integers: the handler only tests them for truthiness or turns them into text (the text
  is a built-in of the platform, see below). An object is its list of properties; the
  first entry for a key is the one a lookup finds. A string is a list of characters of
  the 8-bit alphabet of \<open>char\<close>.
\<close>

datatype jsval =
    JUndefined
  | JNull
  | JBool bool
  | JNum int
  | JStr string
  | JArr "jsval list"
  | JObj "(string \<times> jsval) list"

text \<open>A thrown error; only its \<^verbatim>\<open>message\<close> is ever observed.\<close>

datatype exn = Exn (exn_message: string)

text \<open>\<^verbatim>\<open>if (v)\<close>, \<^verbatim>\<open>v || d\<close>, \<^verbatim>\<open>!v\<close>: the falsy values are undefined, null, false, 0 and the empty string.\<close>

fun truthy :: "jsval \<Rightarrow> bool" where
  "truthy JUndefined = False"
| "truthy JNull = False"
| "truthy (JBool b) = b"
| "truthy (JNum n) = (n \<noteq> 0)"
| "truthy (JStr s) = (s \<noteq> [])"
| "truthy (JArr xs) = True"
| "truthy (JObj kvs) = True"

text \<open>
  Reading a property \<^verbatim>\<open>v.k\<close>. On undefined and null the engine throws a TypeError (the
  wording is V8's); on an object the property or undefined; on the other values
  undefined, which is right for the four names the handler reads
  (\<^verbatim>\<open>sha\<close>, \<^verbatim>\<open>message\<close>, \<^verbatim>\<open>content\<close>, \<^verbatim>\<open>html_url\<close>), none of them a built-in property.
\<close>

fun get_prop :: "jsval \<Rightarrow> string \<Rightarrow> exn + jsval" where
  "get_prop JUndefined k =
     Inl (Exn (''Cannot read properties of undefined (reading '' @ [CHR 0x27] @ k @ [CHR 0x27] @ '')''))"
| "get_prop JNull k =
     Inl (Exn (''Cannot read properties of null (reading '' @ [CHR 0x27] @ k @ [CHR 0x27] @ '')''))"
| "get_prop (JObj kvs) k = Inr (case map_of kvs k of None \<Rightarrow> JUndefined | Some v \<Rightarrow> v)"
| "get_prop v k = Inr JUndefined"

text \<open>Decimal digits of a natural number, as a template literal prints a status code.\<close>

fun string_of_nat :: "nat \<Rightarrow> string" where
  "string_of_nat n =
     (if n < 10 then [char_of (48 + n)]
      else string_of_nat (n div 10) @ [char_of (48 + n mod 10)])"

declare string_of_nat.simps [simp del]

fun join_comma :: "string list \<Rightarrow> string" where
  "join_comma [] = []"
| "join_comma [s] = s"
| "join_comma (s # t # ss) = s @ '','' @ join_comma (t # ss)"

subsection \<open>Built-ins of the platform\<close>

text \<open>
  Three built-ins are not code of the repository and are not computed here: they are
  parameters, and every theorem holds whatever they are. \<^verbatim>\<open>String.prototype.toLowerCase\<close>
  and \<^verbatim>\<open>toUpperCase\<close> follow the Unicode case tables (they can change the length of a
  string, and upper-casing a lower-cased string need not be upper-casing the string);
  the text of a number follows the number format of the language (exponents from
  \<open>10\<^sup>2\<^sup>1\<close> on).
\<close>

record runtime =
  toLowerCase :: "string \<Rightarrow> string"
  toUpperCase :: "string \<Rightarrow> string"
  numberToString :: "int \<Rightarrow> string"

text \<open>The first error of a list of results, or all the values.\<close>

fun first_error :: "(exn + 'a) list \<Rightarrow> exn + 'a list" where
  "first_error [] = Inr []"
| "first_error (Inl e # rs) = Inl e"
| "first_error (Inr v # rs) = (case first_error rs of Inl e \<Rightarrow> Inl e | Inr vs \<Rightarrow> Inr (v # vs))"

text \<open>
  The text a template literal \<^verbatim>\<open>${v}\<close> inserts for a value. An array is the texts of its
  elements joined by commas, null and undefined elements giving the empty text. An object
  is \<^verbatim>\<open>[object Object]\<close>, unless it has a property \<^verbatim>\<open>toString\<close> of its own: a parsed
  JSON value is never a function, so neither that property nor the inherited
  \<^verbatim>\<open>valueOf\<close> yields a primitive and the conversion throws a TypeError (the wording is
  V8's).
\<close>

fun toString :: "runtime \<Rightarrow> jsval \<Rightarrow> exn + string" where
  "toString rt JUndefined = Inr ''undefined''"
| "toString rt JNull = Inr ''null''"
| "toString rt (JBool b) = Inr (if b then ''true'' else ''false'')"
| "toString rt (JNum n) = Inr (numberToString rt n)"
| "toString rt (JStr s) = Inr s"
| "toString rt (JArr xs) =
     (case first_error (map (\<lambda>x. if x = JNull \<or> x = JUndefined then Inr [] else toString rt x) xs) of
        Inl e \<Rightarrow> Inl e
      | Inr ss \<Rightarrow> Inr (join_comma ss))"
| "toString rt (JObj kvs) =
     (if map_of kvs ''toString'' \<noteq> None then Inl (Exn ''Cannot convert object to primitive value'')
      else Inr ''[object Object]'')"

text \<open>
  \<^verbatim>\<open>atob\<close>: the forgiving base64 decoder of the platform. ASCII whitespace is dropped, one
  or two padding characters are removed from a string whose length is a multiple of four,
  a length of \<open>1\<close> modulo \<open>4\<close> or a character outside the alphabet throws, and each
  group of four 6-bit values gives three bytes (a final group of three gives two, of two
  gives one).
\<close>

definition b64_value :: "char \<Rightarrow> nat option" where
  "b64_value c =
     (let n = (of_char c :: nat) in
      if 65 \<le> n \<and> n \<le> 90 then Some (n - 65)
      else if 97 \<le> n \<and> n \<le> 122 then Some (n - 71)
      else if 48 \<le> n \<and> n \<le> 57 then Some (n + 4)
      else if n = 43 then Some 62
      else if n = 47 then Some 63
      else None)"

definition ascii_whitespace :: "char \<Rightarrow> bool" where
  "ascii_whitespace c = ((of_char c :: nat) \<in> {9, 10, 12, 13, 32})"

definition strip_padding :: "string \<Rightarrow> string" where
  "strip_padding d =
     (if d \<noteq> [] \<and> last d = CHR ''='' then
        (let d' = butlast d in if d' \<noteq> [] \<and> last d' = CHR ''='' then butlast d' else d')
      else d)"

fun b64_bytes :: "nat list \<Rightarrow> nat list" where
  "b64_bytes (a # b # c # d # r) =
     (a * 4 + b div 16) # ((b mod 16) * 16 + c div 4) # ((c mod 4) * 64 + d) # b64_bytes r"
| "b64_bytes [a, b, c] = [a * 4 + b div 16, (b mod 16) * 16 + c div 4]"
| "b64_bytes [a, b] = [a * 4 + b div 16]"
| "b64_bytes r = []"

definition atob :: "string \<Rightarrow> exn + string" where
  "atob s =
     (let d0 = filter (\<lambda>c. \<not> ascii_whitespace c) s;
          d = (if length d0 mod 4 = 0 then strip_padding d0 else d0)
      in if length d mod 4 = 1 then Inl (Exn ''The string to be decoded is not correctly encoded.'')
         else (case those (map b64_value d) of
                 None \<Rightarrow> Inl (Exn ''The string to be decoded is not correctly encoded.'')
               | Some vs \<Rightarrow> Inr (map char_of (b64_bytes vs))))"

subsection \<open>Requests, responses and the network\<close>

text \<open>
  An outbound request as \<^verbatim>\<open>fetch(url, {method, headers, body})\<close> builds it. The body is
  the value handed to \<^verbatim>\<open>JSON.stringify\<close>, \<open>None\<close> when the call has no body.
\<close>

record request =
  req_method :: string
  req_url :: string
  req_headers :: "(string \<times> string) list"
  req_body :: "jsval option"

text \<open>
  What \<^verbatim>\<open>fetch\<close> resolves to: the status, what \<^verbatim>\<open>.json()\<close> settles to (the parsed
  value, or the error of a body that is not JSON) and what \<^verbatim>\<open>.text()\<close> gives. A response
  that has arrived delivers its body: a connection lost before the response is the \<open>Inl\<close>
  of the network below, and reading a body fails only by not being JSON.
\<close>

record response =
  status :: nat
  json_body :: "exn + jsval"
  text_body :: string

text \<open>\<^verbatim>\<open>response.ok\<close>: the status is in the range 200 to 299.\<close>

definition ok :: "response \<Rightarrow> bool" where
  "ok r = (200 \<le> status r \<and> status r \<le> 299)"

text \<open>
  The network decides the outcome of a call from all the calls made so far, the last one
  being the call itself: \<open>Inl\<close> when \<^verbatim>\<open>fetch\<close> throws (a transport error), \<open>Inr\<close> the
  response otherwise.
\<close>

type_synonym network = "request list \<Rightarrow> exn + response"

definition fetch :: "network \<Rightarrow> request \<Rightarrow> request list \<Rightarrow> (exn + response) \<times> request list" where
  "fetch net r tr = (net (tr @ [r]), tr @ [r])"

text \<open>The response the handler returns; the body is the value handed to \<^verbatim>\<open>JSON.stringify\<close>.\<close>

record reply =
  reply_status :: nat
  reply_headers :: "(string \<times> string) list"
  reply_body :: jsval

subsection \<open>The helpers of the handler\<close>

definition githubHeaders :: "string \<Rightarrow> bool \<Rightarrow> (string \<times> string) list" where
  "githubHeaders token includeContentType =
     [(''Authorization'', ''token '' @ token),
      (''User-Agent'', ''LFJC-Portal''),
      (''Accept'', ''application/vnd.github.v3+json'')]
     @ (if includeContentType then [(''Content-Type'', ''application/json'')] else [])"

definition successResponse :: "(string \<times> jsval) list \<Rightarrow> reply" where
  "successResponse data =
     \<lparr>reply_status = 200,
      reply_headers = [(''Content-Type'', ''application/json''), (''Access-Control-Allow-Origin'', ''*'')],
      reply_body = JObj ((''success'', JBool True) # data)\<rparr>"

definition errorResponse :: "string \<Rightarrow> reply" where
  "errorResponse msg =
     \<lparr>reply_status = 500,
      reply_headers = [(''Content-Type'', ''application/json''), (''Access-Control-Allow-Origin'', ''*'')],
      reply_body = JObj [(''success'', JBool False),
                         (''message'', JStr (if msg \<noteq> [] then msg else ''Upload failed''))]\<rparr>"

definition ensureRepo ::
    "runtime \<Rightarrow> network \<Rightarrow> string \<Rightarrow> string \<Rightarrow> string \<Rightarrow> request list
       \<Rightarrow> (exn + bool) \<times> request list" where
  "ensureRepo rt net username repoName token tr =
     (let repoUrl = ''https://api.github.com/repos/'' @ username @ ''/'' @ repoName;
          (checkResponse, tr1) =
             fetch net \<lparr>req_method = ''GET'', req_url = repoUrl,
                        req_headers = githubHeaders token False, req_body = None\<rparr> tr
      in if (case checkResponse of Inl e \<Rightarrow> False | Inr r \<Rightarrow> ok r) then (Inr True, tr1)
         else
           (let (createResponse, tr2) =
                  fetch net
                    \<lparr>req_method = ''POST'', req_url = ''https://api.github.com/user/repos'',
                     req_headers = githubHeaders token True,
                     req_body = Some (JObj [(''name'', JStr repoName),
                                            (''private'', JBool False),
                                            (''description'', JStr (''LFJC Class '' @ toUpperCase rt repoName)),
                                            (''auto_init'', JBool True)])\<rparr> tr1
            in (case createResponse of
                  Inl e \<Rightarrow> Inl e
                | Inr r \<Rightarrow>
                    if \<not> ok r then
                      (case json_body r of
                         Inl e \<Rightarrow> Inl e
                       | Inr error \<Rightarrow>
                           (case get_prop error ''message'' of
                              Inl e \<Rightarrow> Inl e
                            | Inr m \<Rightarrow>
                                (case toString rt m of
                                   Inl e \<Rightarrow> Inl e
                                 | Inr printed \<Rightarrow>
                                     Inl (Exn (''Failed to create repo '' @ repoName @ '': '' @ printed)))))
                    else Inr True,
                tr2)))"

definition uploadFile ::
    "network \<Rightarrow> string \<Rightarrow> string \<Rightarrow> string \<Rightarrow> jsval \<Rightarrow> string \<Rightarrow> string \<Rightarrow> request list
       \<Rightarrow> (exn + jsval) \<times> request list" where
  "uploadFile net username repoName filePath content token msg tr =
     (let fileUrl = ''https://api.github.com/repos/'' @ username @ ''/'' @ repoName
                      @ ''/contents/'' @ filePath;
          (checkResponse, tr1) =
             fetch net \<lparr>req_method = ''GET'', req_url = fileUrl,
                        req_headers = githubHeaders token False, req_body = None\<rparr> tr;
          sha = (case checkResponse of
                   Inl e \<Rightarrow> JNull
                 | Inr r \<Rightarrow>
                     if ok r then
                       (case json_body r of
                          Inl e \<Rightarrow> JNull
                        | Inr fileData \<Rightarrow>
                            (case get_prop fileData ''sha'' of Inl e \<Rightarrow> JNull | Inr s \<Rightarrow> s))
                     else JNull);
          uploadData = JObj ([(''message'', JStr msg), (''content'', content), (''branch'', JStr ''main'')]
                             @ (if truthy sha then [(''sha'', sha)] else []));
          (uploadResponse, tr2) =
             fetch net \<lparr>req_method = ''PUT'', req_url = fileUrl,
                        req_headers = githubHeaders token True, req_body = Some uploadData\<rparr> tr1
      in (case uploadResponse of
            Inl e \<Rightarrow> Inl e
          | Inr r \<Rightarrow>
              if \<not> ok r then
                (let errorText = text_body r
                 in Inl (Exn (''GitHub API error: '' @ string_of_nat (status r))))
              else
                (case json_body r of
                   Inl e \<Rightarrow> Inl e
                 | Inr result \<Rightarrow>
                     (case get_prop result ''content'' of
                        Inl e \<Rightarrow> Inl e
                      | Inr c \<Rightarrow>
                          (case get_prop c ''html_url'' of
                             Inl e \<Rightarrow> Inl e
                           | Inr u \<Rightarrow>
                               (case get_prop c ''sha'' of
                                  Inl e \<Rightarrow> Inl e
                                | Inr s \<Rightarrow>
                                    Inr (JObj [(''url'', u), (''sha'', s), (''path'', JStr filePath)]))))),
          tr2))"

subsection \<open>The handler\<close>

text \<open>
  The deployment's configuration \<^verbatim>\<open>context.env\<close>; a variable that is not set is \<open>None\<close>.
\<close>

record env =
  GITHUB_TOKEN :: "string option"
  GITHUB_USER :: "string option"
  GOOGLE_SCRIPT_URL :: "string option"

text \<open>
  The invocation context: the configuration and what \<^verbatim>\<open>context.request.formData()\<close>
  settles to, an error or the form. \<^verbatim>\<open>formData.get(k)\<close> is the text of field \<open>k\<close>,
  \<open>None\<close> (null) when the form has no such field. The five fields the handler reads are
  text fields, as the portal sends them; a field submitted as a file is not modelled.
\<close>

record request_context =
  ctx_env :: env
  ctx_formData :: "exn + (string \<Rightarrow> string option)"

text \<open>
  A form field as a value; its text where the code needs a string (in a template literal
  and as the argument of \<^verbatim>\<open>atob\<close>, null is the text \<^verbatim>\<open>null\<close>); and \<^verbatim>\<open>v || d\<close> on a
  form field.
\<close>

definition field_value :: "string option \<Rightarrow> jsval" where
  "field_value f = (case f of None \<Rightarrow> JNull | Some s \<Rightarrow> JStr s)"

definition field_text :: "string option \<Rightarrow> string" where
  "field_text f = (case f of None \<Rightarrow> ''null'' | Some s \<Rightarrow> s)"

definition or_default :: "string option \<Rightarrow> string \<Rightarrow> string" where
  "or_default f d = (case f of None \<Rightarrow> d | Some s \<Rightarrow> if s \<noteq> [] then s else d)"

text \<open>
  The block of the answer branch that also sends the answer key to the Google Apps
  Script endpoint (inline in the handler, under a \<^verbatim>\<open>try\<close>/\<^verbatim>\<open>catch\<close> of its own). It
  gives the value of \<^verbatim>\<open>driveResult\<close>, which starts as null. The arguments of
  \<^verbatim>\<open>fetch\<close> are evaluated first, so a content that \<^verbatim>\<open>atob\<close> rejects throws before
  any call is made.
\<close>

definition sendToDrive ::
    "runtime \<Rightarrow> network \<Rightarrow> string option \<Rightarrow> string \<Rightarrow> string \<Rightarrow> string option
       \<Rightarrow> request list \<Rightarrow> jsval \<times> request list" where
  "sendToDrive rt net script_url className date content tr =
     (case script_url of
        None \<Rightarrow> (JNull, tr)
      | Some url \<Rightarrow>
          if url = [] then (JNull, tr)
          else
            (case atob (field_text content) of
               Inl driveError \<Rightarrow> (JNull, tr)
             | Inr decoded \<Rightarrow>
                 (let (driveResponse, tr') =
                        fetch net
                          \<lparr>req_method = ''POST'', req_url = url,
                           req_headers = [(''Content-Type'', ''application/json'')],
                           req_body = Some (JObj [(''class'', JStr (toUpperCase rt className)),
                                                  (''date'', JStr date),
                                                  (''content'', JStr decoded)])\<rparr> tr
                  in (case driveResponse of
                        Inl driveError \<Rightarrow> JNull
                      | Inr r \<Rightarrow> (case json_body r of Inl driveError \<Rightarrow> JNull | Inr v \<Rightarrow> v),
                      tr'))))"

text \<open>
  The body of the handler's \<^verbatim>\<open>try\<close> block. \<open>today\<close> is the current UTC date as
  \<^verbatim>\<open>new Date().toISOString().split('T')[0]\<close> gives it. A class field that is absent is
  null, and calling \<^verbatim>\<open>toLowerCase\<close> on it throws a TypeError (the wording is V8's).
\<close>

definition upload_try ::
    "runtime \<Rightarrow> network \<Rightarrow> string \<Rightarrow> request_context \<Rightarrow> request list
       \<Rightarrow> (exn + reply) \<times> request list" where
  "upload_try rt net today ctx tr =
     (let user = or_default (GITHUB_USER (ctx_env ctx)) ''iitjeelf'';
          script_url = GOOGLE_SCRIPT_URL (ctx_env ctx)
      in case GITHUB_TOKEN (ctx_env ctx) of
           None \<Rightarrow> (Inr (errorResponse ''No GitHub token''), tr)
         | Some token \<Rightarrow>
             if token = [] then (Inr (errorResponse ''No GitHub token''), tr)
             else
               (case ctx_formData ctx of
                  Inl e \<Rightarrow> (Inl e, tr)
                | Inr formData \<Rightarrow>
                    (case formData ''class'' of
                       None \<Rightarrow>
                         (Inl (Exn (''Cannot read properties of null (reading ''
                                     @ [CHR 0x27] @ ''toLowerCase'' @ [CHR 0x27] @ '')'')), tr)
                     | Some cls \<Rightarrow>
                         (let className = toLowerCase rt cls;
                              filename = formData ''filename'';
                              content = formData ''content'';
                              type = or_default (formData ''type'') ''question'';
                              date = or_default (formData ''date'') today;
                              (repo, tr1) = ensureRepo rt net user className token tr
                          in case repo of
                               Inl e \<Rightarrow> (Inl e, tr1)
                             | Inr b \<Rightarrow>
                                 if type = ''answer'' then
                                   (let (githubResult, tr2) =
                                          uploadFile net user className
                                            (''answers/answer-key-'' @ date @ ''.txt'')
                                            (field_value content) token
                                            (''Add answer key for '' @ toUpperCase rt className
                                               @ '' - '' @ date)
                                            tr1
                                    in case githubResult of
                                         Inl e \<Rightarrow> (Inl e, tr2)
                                       | Inr github \<Rightarrow>
                                           (let (driveResult, tr3) =
                                                  sendToDrive rt net script_url className date content tr2
                                            in (Inr (successResponse
                                                       [(''message'',
                                                         JStr (''Uploaded to '' @ toUpperCase rt className)),
                                                        (''github'', github),
                                                        (''drive'', driveResult)]), tr3)))
                                 else
                                   (let (githubResult, tr2) =
                                          uploadFile net user className
                                            (''questions/'' @ field_text filename)
                                            (field_value content) token
                                            (''Add question: '' @ field_text filename @ '' to ''
                                               @ toUpperCase rt className)
                                            tr1
                                    in (case githubResult of
                                          Inl e \<Rightarrow> Inl e
                                        | Inr github \<Rightarrow>
                                            Inr (successResponse
                                                   [(''message'',
                                                     JStr (''Uploaded to '' @ toUpperCase rt className)),
                                                    (''github'', github),
                                                    (''drive'', JNull)]),
                                        tr2))))))"

text \<open>
  \<^verbatim>\<open>onRequestPost\<close>: the \<^verbatim>\<open>try\<close> block under its single \<^verbatim>\<open>catch\<close>. The result is the
  response and the outbound calls the invocation made, in order.
\<close>

definition onRequestPost :: "runtime \<Rightarrow> network \<Rightarrow> string \<Rightarrow> request_context \<Rightarrow> reply \<times> request list" where
  "onRequestPost rt net today ctx =
     (case upload_try rt net today ctx [] of
        (Inl error, tr) \<Rightarrow> (errorResponse (exn_message error), tr)
      | (Inr r, tr) \<Rightarrow> (r, tr))"

subsection \<open>Concrete runs\<close>

text \<open>
  Networks and requests on which the theorems below are applied. The built-ins of these
  runs map the letters of ASCII and print a number in decimal, as the platform does on the
  ASCII class names and the small numbers of the runs. A scripted network answers by the
  method of the call: the reads of the repository and of the file (GET), the upsert (PUT),
  and the two POSTs, repository creation and the script endpoint.
\<close>

definition lower_char :: "char \<Rightarrow> char" where
  "lower_char c = (let n = (of_char c :: nat) in if 65 \<le> n \<and> n \<le> 90 then char_of (n + 32) else c)"

definition upper_char :: "char \<Rightarrow> char" where
  "upper_char c = (let n = (of_char c :: nat) in if 97 \<le> n \<and> n \<le> 122 then char_of (n - 32) else c)"

definition ascii_runtime :: runtime where
  "ascii_runtime =
     \<lparr>toLowerCase = map lower_char,
      toUpperCase = map upper_char,
      numberToString = (\<lambda>n. if n < 0 then ''-'' @ string_of_nat (nat (- n)) else string_of_nat (nat n))\<rparr>"

definition scripted :: "(exn + response) \<Rightarrow> (exn + response) \<Rightarrow> (exn + response) \<Rightarrow> network" where
  "scripted get put post tr =
     (if req_method (last tr) = ''GET'' then get
      else if req_method (last tr) = ''PUT'' then put
      else post)"

definition resp_found :: response where
  "resp_found = \<lparr>status = 200, json_body = Inr (JObj [(''sha'', JStr ''abc'')]), text_body = []\<rparr>"

definition resp_not_found :: response where
  "resp_not_found =
     \<lparr>status = 404, json_body = Inr (JObj [(''message'', JStr ''Not Found'')]), text_body = ''Not Found''\<rparr>"

definition resp_listing :: response where
  "resp_listing =
     \<lparr>status = 200,
      json_body = Inr (JArr [JObj [(''name'', JStr ''q1.pdf''), (''sha'', JStr ''1f0'')]]),
      text_body = []\<rparr>"

definition resp_stored :: response where
  "resp_stored =
     \<lparr>status = 201,
      json_body = Inr (JObj [(''content'', JObj [(''html_url'', JStr ''https://h/f''),
                                                  (''sha'', JStr ''def'')])]),
      text_body = []\<rparr>"

definition resp_conflict :: response where
  "resp_conflict =
     \<lparr>status = 409, json_body = Inr (JObj [(''message'', JStr ''does not match'')]),
      text_body = ''does not match''\<rparr>"

definition resp_name_taken :: response where
  "resp_name_taken =
     \<lparr>status = 422, json_body = Inr (JObj [(''message'', JStr ''name already exists'')]),
      text_body = []\<rparr>"

definition resp_drive :: response where
  "resp_drive = \<lparr>status = 200, json_body = Inr (JObj [(''success'', JBool True)]), text_body = []\<rparr>"

definition resp_not_json :: response where
  "resp_not_json =
     \<lparr>status = 200, json_body = Inl (Exn ''Unexpected token < in JSON at position 0''),
      text_body = ''<html>''\<rparr>"

definition offline :: "exn + response" where
  "offline = Inl (Exn ''Network connection lost.'')"

definition form_answer :: "string \<Rightarrow> string option" where
  "form_answer k =
     (if k = ''class'' then Some ''XI-A''
      else if k = ''type'' then Some ''answer''
      else if k = ''content'' then Some ''aGVsbG8=''
      else if k = ''date'' then Some ''2024-05-01''
      else None)"

definition form_question :: "string \<Rightarrow> string option" where
  "form_question k =
     (if k = ''class'' then Some ''XI-A''
      else if k = ''filename'' then Some ''q1.pdf''
      else if k = ''content'' then Some ''Yw==''
      else None)"

definition env_full :: env where
  "env_full = \<lparr>GITHUB_TOKEN = Some ''t0k'', GITHUB_USER = None, GOOGLE_SCRIPT_URL = Some ''https://hook''\<rparr>"

definition ctx_of :: "(string \<Rightarrow> string option) \<Rightarrow> request_context" where
  "ctx_of form = \<lparr>ctx_env = env_full, ctx_formData = Inr form\<rparr>"

definition ctx_no_token :: request_context where
  "ctx_no_token = \<lparr>ctx_env = env_full\<lparr>GITHUB_TOKEN := None\<rparr>, ctx_formData = Inr form_answer\<rparr>"

definition ctx_no_hook :: request_context where
  "ctx_no_hook = \<lparr>ctx_env = env_full\<lparr>GOOGLE_SCRIPT_URL := None\<rparr>, ctx_formData = Inr form_answer\<rparr>"

definition ctx_silent_error :: request_context where
  "ctx_silent_error = \<lparr>ctx_env = env_full, ctx_formData = Inl (Exn [])\<rparr>"


section \<open>Properties of the helpers\<close>

subsection \<open>Headers and envelopes\<close>

lemma githubHeaders_not_json_only:
  "githubHeaders token b \<noteq> [(''Content-Type'', ''application/json'')]"
  by (simp add: githubHeaders_def)

lemma errorResponse_fields:
  "reply_status (errorResponse m) = 500 \<and>
   get_prop (reply_body (errorResponse m)) ''drive'' = Inr JUndefined"
  by (simp add: errorResponse_def)

lemma successResponse_fields:
  "reply_status (successResponse [(''message'', m), (''github'', g), (''drive'', d)]) = 200 \<and>
   get_prop (reply_body (successResponse [(''message'', m), (''github'', g), (''drive'', d)])) ''drive''
     = Inr d"
  by (simp add: successResponse_def)


subsection \<open>The calls each procedure makes\<close>

text \<open>
  \<^verbatim>\<open>ensureRepo\<close> reads the repository and may create it; \<^verbatim>\<open>uploadFile\<close> always reads
  the file and then writes it; the script endpoint is called at most once.
\<close>

lemma ensureRepo_calls:
  assumes "ensureRepo rt net username repoName token tr = (res, tr')"
  shows "tr' = tr @ [\<lparr>req_method = ''GET'',
                      req_url = ''https://api.github.com/repos/'' @ username @ ''/'' @ repoName,
                      req_headers = githubHeaders token False, req_body = None\<rparr>]
       \<or> tr' = tr @ [\<lparr>req_method = ''GET'',
                      req_url = ''https://api.github.com/repos/'' @ username @ ''/'' @ repoName,
                      req_headers = githubHeaders token False, req_body = None\<rparr>,
                    \<lparr>req_method = ''POST'', req_url = ''https://api.github.com/user/repos'',
                      req_headers = githubHeaders token True,
                      req_body = Some (JObj [(''name'', JStr repoName),
                                             (''private'', JBool False),
                                             (''description'', JStr (''LFJC Class '' @ toUpperCase rt repoName)),
                                             (''auto_init'', JBool True)])\<rparr>]"
  using assms unfolding ensureRepo_def fetch_def Let_def
  by (auto split: if_splits)

lemma ensureRepo_headers:
  assumes "ensureRepo rt net username repoName token [] = (res, tr')"
  shows "\<forall>r\<in>set tr'. \<exists>b rest. req_headers r = githubHeaders token b \<and>
           req_url r = ''https://api.github.com/'' @ rest"
  using ensureRepo_calls [OF assms] by fastforce


lemma uploadFile_calls:
  assumes "uploadFile net username repoName filePath content token msg tr = (res, tr')"
  shows "\<exists>extra. tr' =
     tr @ [\<lparr>req_method = ''GET'',
             req_url = ''https://api.github.com/repos/'' @ username @ ''/'' @ repoName @ ''/contents/'' @ filePath,
             req_headers = githubHeaders token False, req_body = None\<rparr>,
           \<lparr>req_method = ''PUT'',
             req_url = ''https://api.github.com/repos/'' @ username @ ''/'' @ repoName @ ''/contents/'' @ filePath,
             req_headers = githubHeaders token True,
             req_body = Some (JObj ([(''message'', JStr msg), (''content'', content), (''branch'', JStr ''main'')] @ extra))\<rparr>]"
  using assms unfolding uploadFile_def fetch_def Let_def
  by auto

lemma uploadFile_returns:
  assumes "uploadFile net username repoName filePath content token msg tr = (Inr github, tr')"
  shows "\<exists>u s. github = JObj [(''url'', u), (''sha'', s), (''path'', JStr filePath)]"
  using assms unfolding uploadFile_def fetch_def Let_def
  by (auto split: sum.splits if_splits)

lemma uploadFile_headers:
  assumes "uploadFile net username repoName filePath content token msg tr = (res, tr')"
    and "\<forall>r\<in>set tr. \<exists>b rest. req_headers r = githubHeaders token b \<and>
           req_url r = ''https://api.github.com/'' @ rest"
  shows "\<forall>r\<in>set tr'. \<exists>b rest. req_headers r = githubHeaders token b \<and>
           req_url r = ''https://api.github.com/'' @ rest"
  using uploadFile_calls [OF assms(1)] assms(2) by fastforce


lemma sendToDrive_calls:
  assumes "sendToDrive rt net script_url className date content tr = (driveResult, tr')"
  shows "tr' = tr \<or>
         (\<exists>url decoded. script_url = Some url \<and> url \<noteq> [] \<and> atob (field_text content) = Inr decoded \<and>
            tr' = tr @ [\<lparr>req_method = ''POST'', req_url = url,
                           req_headers = [(''Content-Type'', ''application/json'')],
                           req_body = Some (JObj [(''class'', JStr (toUpperCase rt className)),
                                                  (''date'', JStr date),
                                                  (''content'', JStr decoded)])\<rparr>])"
  using assms unfolding sendToDrive_def fetch_def Let_def
  by (auto split: option.splits sum.splits if_splits)

lemma sendToDrive_unconfigured:
  assumes "script_url = None \<or> script_url = Some []"
  shows "sendToDrive rt net script_url className date content tr = (JNull, tr)"
  using assms unfolding sendToDrive_def by auto


subsection \<open>The shape of an invocation\<close>

text \<open>
  Once the token, the form and the class are there, the \<^verbatim>\<open>try\<close> block is the repository
  check followed by one of the two branches. An invocation ends in one of five ways: before
  any call, when the repository cannot be ensured, when the upsert fails, and with a success
  on either branch.
\<close>

lemma upload_try_after_repo:
  assumes "GITHUB_TOKEN (ctx_env ctx) = Some token" and "token \<noteq> []"
    and "ctx_formData ctx = Inr formData" and "formData ''class'' = Some cls"
    and "ensureRepo rt net (or_default (GITHUB_USER (ctx_env ctx)) ''iitjeelf'') (toLowerCase rt cls) token tr
           = (repo, tr1)"
  shows "upload_try rt net today ctx tr =
     (case repo of
        Inl e \<Rightarrow> (Inl e, tr1)
      | Inr b \<Rightarrow>
          if or_default (formData ''type'') ''question'' = ''answer'' then
            (case uploadFile net (or_default (GITHUB_USER (ctx_env ctx)) ''iitjeelf'') (toLowerCase rt cls)
                    (''answers/answer-key-'' @ or_default (formData ''date'') today @ ''.txt'')
                    (field_value (formData ''content'')) token
                    (''Add answer key for '' @ toUpperCase rt (toLowerCase rt cls) @ '' - '' @ or_default (formData ''date'') today)
                    tr1 of
               (Inl e, tr2) \<Rightarrow> (Inl e, tr2)
             | (Inr github, tr2) \<Rightarrow>
                 (case sendToDrive rt net (GOOGLE_SCRIPT_URL (ctx_env ctx)) (toLowerCase rt cls)
                         (or_default (formData ''date'') today) (formData ''content'') tr2 of
                    (driveResult, tr3) \<Rightarrow>
                      (Inr (successResponse [(''message'', JStr (''Uploaded to '' @ toUpperCase rt (toLowerCase rt cls))),
                                             (''github'', github), (''drive'', driveResult)]), tr3)))
          else
            (case uploadFile net (or_default (GITHUB_USER (ctx_env ctx)) ''iitjeelf'') (toLowerCase rt cls)
                    (''questions/'' @ field_text (formData ''filename''))
                    (field_value (formData ''content'')) token
                    (''Add question: '' @ field_text (formData ''filename'') @ '' to ''
                       @ toUpperCase rt (toLowerCase rt cls))
                    tr1 of
               (Inl e, tr2) \<Rightarrow> (Inl e, tr2)
             | (Inr github, tr2) \<Rightarrow>
                 (Inr (successResponse [(''message'', JStr (''Uploaded to '' @ toUpperCase rt (toLowerCase rt cls))),
                                        (''github'', github), (''drive'', JNull)]), tr2)))"
  using assms unfolding upload_try_def Let_def
  by (simp split: sum.splits prod.splits)

lemma upload_try_replies:
  assumes "upload_try rt net today ctx tr = (Inr r, tr')"
  shows "r = errorResponse ''No GitHub token'' \<or>
         (\<exists>m g d. r = successResponse [(''message'', JStr m), (''github'', g), (''drive'', d)])"
  using assms unfolding upload_try_def Let_def
  by (auto split: option.splits sum.splits if_splits prod.splits)

lemma onRequestPost_cases [case_names early repo_failed upload_failed question_done answer_done]:
  fixes rt :: runtime and net :: network and today :: string and ctx :: request_context
  obtains m where
      "GITHUB_TOKEN (ctx_env ctx) = None \<or> GITHUB_TOKEN (ctx_env ctx) = Some [] \<or>
       (\<exists>e. ctx_formData ctx = Inl e) \<or>
       (\<exists>formData. ctx_formData ctx = Inr formData \<and> formData ''class'' = None)"
      "onRequestPost rt net today ctx = (errorResponse m, [])"
  | token formData cls e tr1 where
      "GITHUB_TOKEN (ctx_env ctx) = Some token" "token \<noteq> []"
      "ctx_formData ctx = Inr formData" "formData ''class'' = Some cls"
      "ensureRepo rt net (or_default (GITHUB_USER (ctx_env ctx)) ''iitjeelf'') (toLowerCase rt cls) token []
         = (Inl e, tr1)"
      "onRequestPost rt net today ctx = (errorResponse (exn_message e), tr1)"
  | token formData cls b tr1 path msg e tr2 where
      "GITHUB_TOKEN (ctx_env ctx) = Some token" "token \<noteq> []"
      "ctx_formData ctx = Inr formData" "formData ''class'' = Some cls"
      "ensureRepo rt net (or_default (GITHUB_USER (ctx_env ctx)) ''iitjeelf'') (toLowerCase rt cls) token []
         = (Inr b, tr1)"
      "uploadFile net (or_default (GITHUB_USER (ctx_env ctx)) ''iitjeelf'') (toLowerCase rt cls) path
         (field_value (formData ''content'')) token msg tr1 = (Inl e, tr2)"
      "onRequestPost rt net today ctx = (errorResponse (exn_message e), tr2)"
      "path = (if or_default (formData ''type'') ''question'' = ''answer''
               then ''answers/answer-key-'' @ or_default (formData ''date'') today @ ''.txt''
               else ''questions/'' @ field_text (formData ''filename''))"
  | token formData cls b tr1 msg github tr2 where
      "GITHUB_TOKEN (ctx_env ctx) = Some token" "token \<noteq> []"
      "ctx_formData ctx = Inr formData" "formData ''class'' = Some cls"
      "or_default (formData ''type'') ''question'' \<noteq> ''answer''"
      "ensureRepo rt net (or_default (GITHUB_USER (ctx_env ctx)) ''iitjeelf'') (toLowerCase rt cls) token []
         = (Inr b, tr1)"
      "uploadFile net (or_default (GITHUB_USER (ctx_env ctx)) ''iitjeelf'') (toLowerCase rt cls)
         (''questions/'' @ field_text (formData ''filename''))
         (field_value (formData ''content'')) token msg tr1 = (Inr github, tr2)"
      "onRequestPost rt net today ctx =
         (successResponse [(''message'', JStr (''Uploaded to '' @ toUpperCase rt (toLowerCase rt cls))),
                           (''github'', github), (''drive'', JNull)], tr2)"
  | token formData cls b tr1 msg github tr2 drive tr3 where
      "GITHUB_TOKEN (ctx_env ctx) = Some token" "token \<noteq> []"
      "ctx_formData ctx = Inr formData" "formData ''class'' = Some cls"
      "or_default (formData ''type'') ''question'' = ''answer''"
      "ensureRepo rt net (or_default (GITHUB_USER (ctx_env ctx)) ''iitjeelf'') (toLowerCase rt cls) token []
         = (Inr b, tr1)"
      "uploadFile net (or_default (GITHUB_USER (ctx_env ctx)) ''iitjeelf'') (toLowerCase rt cls)
         (''answers/answer-key-'' @ or_default (formData ''date'') today @ ''.txt'')
         (field_value (formData ''content'')) token msg tr1 = (Inr github, tr2)"
      "sendToDrive rt net (GOOGLE_SCRIPT_URL (ctx_env ctx)) (toLowerCase rt cls)
         (or_default (formData ''date'') today) (formData ''content'') tr2 = (drive, tr3)"
      "onRequestPost rt net today ctx =
         (successResponse [(''message'', JStr (''Uploaded to '' @ toUpperCase rt (toLowerCase rt cls))),
                           (''github'', github), (''drive'', drive)], tr3)"
proof (cases "GITHUB_TOKEN (ctx_env ctx)")
  case None
  then have "onRequestPost rt net today ctx = (errorResponse ''No GitHub token'', [])"
    by (simp add: onRequestPost_def upload_try_def)
  with None show ?thesis using that(1) by blast
next
  case (Some token)
  show ?thesis
  proof (cases "token = []")
    case True
    with Some have "onRequestPost rt net today ctx = (errorResponse ''No GitHub token'', [])"
      by (simp add: onRequestPost_def upload_try_def)
    with Some True show ?thesis using that(1) by blast
  next
    case tok: False
    show ?thesis
    proof (cases "ctx_formData ctx")
      case (Inl e)
      with Some tok have "onRequestPost rt net today ctx = (errorResponse (exn_message e), [])"
        by (simp add: onRequestPost_def upload_try_def)
      with Inl show ?thesis using that(1) by blast
    next
      case (Inr formData)
      show ?thesis
      proof (cases "formData ''class''")
        case None
        with Some tok Inr have "onRequestPost rt net today ctx =
            (errorResponse (''Cannot read properties of null (reading '' @ [CHR 0x27] @ ''toLowerCase''
                              @ [CHR 0x27] @ '')''), [])"
          by (simp add: onRequestPost_def upload_try_def)
        with Inr None show ?thesis using that(1) by blast
      next
        case cls: (Some cls)
        obtain res tr1 where er:
          "ensureRepo rt net (or_default (GITHUB_USER (ctx_env ctx)) ''iitjeelf'') (toLowerCase rt cls) token []
             = (res, tr1)"
          by (cases "ensureRepo rt net (or_default (GITHUB_USER (ctx_env ctx)) ''iitjeelf'')
                       (toLowerCase rt cls) token []")
        note run = upload_try_after_repo [OF Some tok Inr cls er, where today = today]
        show ?thesis
        proof (cases res)
          case (Inl e)
          with run have "onRequestPost rt net today ctx = (errorResponse (exn_message e), tr1)"
            by (simp add: onRequestPost_def)
          with Some tok Inr cls er Inl show ?thesis using that(2) by blast
        next
          case b: (Inr b)
          show ?thesis
          proof (cases "or_default (formData ''type'') ''question'' = ''answer''")
            case True
            obtain g tr2 where up:
              "uploadFile net (or_default (GITHUB_USER (ctx_env ctx)) ''iitjeelf'') (toLowerCase rt cls)
                 (''answers/answer-key-'' @ or_default (formData ''date'') today @ ''.txt'')
                 (field_value (formData ''content'')) token
                 (''Add answer key for '' @ toUpperCase rt (toLowerCase rt cls) @ '' - '' @ or_default (formData ''date'') today)
                 tr1 = (g, tr2)"
              using prod.exhaust by blast
            obtain d tr3 where dr:
              "sendToDrive rt net (GOOGLE_SCRIPT_URL (ctx_env ctx)) (toLowerCase rt cls)
                 (or_default (formData ''date'') today) (formData ''content'') tr2 = (d, tr3)"
              using prod.exhaust by blast
            show ?thesis
            proof (cases g)
              case (Inl e)
              with run b True up
              have "onRequestPost rt net today ctx = (errorResponse (exn_message e), tr2)"
                by (simp add: onRequestPost_def)
              with Some tok Inr cls er b up Inl True show ?thesis using that(3) by simp
            next
              case (Inr github)
              with run b True up dr
              have "onRequestPost rt net today ctx =
                 (successResponse [(''message'', JStr (''Uploaded to '' @ toUpperCase rt (toLowerCase rt cls))),
                                   (''github'', github), (''drive'', d)], tr3)"
                by (simp add: onRequestPost_def)
              with Some tok \<open>ctx_formData ctx = Inr formData\<close> cls er b up Inr True dr
              show ?thesis using that(5) by blast
            qed
          next
            case False
            obtain g tr2 where up:
              "uploadFile net (or_default (GITHUB_USER (ctx_env ctx)) ''iitjeelf'') (toLowerCase rt cls)
                 (''questions/'' @ field_text (formData ''filename''))
                 (field_value (formData ''content'')) token
                 (''Add question: '' @ field_text (formData ''filename'') @ '' to ''
                    @ toUpperCase rt (toLowerCase rt cls))
                 tr1 = (g, tr2)"
              using prod.exhaust by blast
            show ?thesis
            proof (cases g)
              case (Inl e)
              with run b False up
              have "onRequestPost rt net today ctx = (errorResponse (exn_message e), tr2)"
                by (simp add: onRequestPost_def)
              with Some tok Inr cls er b up Inl False show ?thesis using that(3) by simp
            next
              case (Inr github)
              with run b False up
              have "onRequestPost rt net today ctx =
                 (successResponse [(''message'', JStr (''Uploaded to '' @ toUpperCase rt (toLowerCase rt cls))),
                                   (''github'', github), (''drive'', JNull)], tr2)"
                by (simp add: onRequestPost_def)
              with Some tok \<open>ctx_formData ctx = Inr formData\<close> cls er b up Inr False
              show ?thesis using that(4) by blast
            qed
          qed
        qed
      qed
    qed
  qed
qed

subsection \<open>Values of the concrete runs\<close>

lemma scripted_list:
  "scripted get put post (a # b # tr) = scripted get put post (b # tr)"
  "scripted get put post [r] =
     (if req_method r = ''GET'' then get else if req_method r = ''PUT'' then put else post)"
  by (simp_all add: scripted_def)

lemma ctx_of_simps:
  "GITHUB_TOKEN (ctx_env (ctx_of form)) = Some ''t0k''"
  "GITHUB_USER (ctx_env (ctx_of form)) = None"
  "GOOGLE_SCRIPT_URL (ctx_env (ctx_of form)) = Some ''https://hook''"
  "ctx_formData (ctx_of form) = Inr form"
  by (simp_all add: ctx_of_def env_full_def)

lemma run_values:
  "toLowerCase ascii_runtime ''XI-A'' = ''xi-a''"
  "toUpperCase ascii_runtime ''xi-a'' = ''XI-A''"
  "toUpperCase ascii_runtime (toLowerCase ascii_runtime ''XI-A'') = ''XI-A''"
  "or_default (GITHUB_USER (ctx_env (ctx_of form))) ''iitjeelf'' = ''iitjeelf''"
  "or_default (form_answer ''type'') ''question'' = ''answer''"
  "or_default (form_answer ''date'') today = ''2024-05-01''"
  "atob (field_text (form_answer ''content'')) = Inr ''hello''"
  by (code_simp, code_simp, code_simp, simp add: ctx_of_simps or_default_def,
      simp add: form_answer_def or_default_def, simp add: form_answer_def or_default_def, code_simp)

section \<open>Properties of the endpoint\<close>

subsection \<open>The revision id on the upsert\<close>

text \<open>
  Claim C1. \<^verbatim>\<open>uploadFile\<close> always makes two calls, the read of the file and the upsert:
  a failed read never stops the upload. The PUT body carries a \<^verbatim>\<open>sha\<close> field exactly
  when the read answered with a success status and a JSON body whose \<^verbatim>\<open>sha\<close> property is
  truthy, and the field is then that value. When the read threw, or answered 404 or any
  other status outside 200 to 299, or its body gave no such value, the body is
  \<^verbatim>\<open>{message, content, branch}\<close> alone.
\<close>

theorem uploadFile_revision_id:
  fixes net :: network and username repoName filePath token msg :: string
    and content :: jsval and tr :: "request list"
  defines "fileUrl \<equiv> ''https://api.github.com/repos/'' @ username @ ''/'' @ repoName @ ''/contents/'' @ filePath"
  defines "readRequest \<equiv> \<lparr>req_method = ''GET'', req_url = fileUrl,
                            req_headers = githubHeaders token False, req_body = None\<rparr>"
  defines "putRequest \<equiv> \<lambda>extra. \<lparr>req_method = ''PUT'', req_url = fileUrl,
                            req_headers = githubHeaders token True,
                            req_body = Some (JObj ([(''message'', JStr msg), (''content'', content),
                                                    (''branch'', JStr ''main'')] @ extra))\<rparr>"
  defines "calls \<equiv> snd (uploadFile net username repoName filePath content token msg tr)"
  shows "(\<forall>r fileData s.
            net (tr @ [readRequest]) = Inr r \<and> ok r \<and> json_body r = Inr fileData \<and>
            get_prop fileData ''sha'' = Inr s \<and> truthy s
            \<longrightarrow> calls = tr @ [readRequest, putRequest [(''sha'', s)]]) \<and>
         (\<not> (\<exists>r fileData s.
               net (tr @ [readRequest]) = Inr r \<and> ok r \<and> json_body r = Inr fileData \<and>
               get_prop fileData ''sha'' = Inr s \<and> truthy s)
            \<longrightarrow> calls = tr @ [readRequest, putRequest []]) \<and>
         (\<forall>e. net (tr @ [readRequest]) = Inl e \<longrightarrow> calls = tr @ [readRequest, putRequest []]) \<and>
         (\<forall>r. net (tr @ [readRequest]) = Inr r \<and> \<not> ok r \<longrightarrow> calls = tr @ [readRequest, putRequest []])"
  unfolding calls_def putRequest_def readRequest_def fileUrl_def uploadFile_def fetch_def Let_def
  by (auto split: sum.splits)

theorem uploadFile_revision_id_witness:
  "scripted (Inr resp_found) (Inr resp_stored) offline
     ([] @ [\<lparr>req_method = ''GET'', req_url = ''https://api.github.com/repos/u/xi-a/contents/p'',
             req_headers = githubHeaders ''t0k'' False, req_body = None\<rparr>]) = Inr resp_found \<and>
   ok resp_found \<and> json_body resp_found = Inr (JObj [(''sha'', JStr ''abc'')]) \<and>
   get_prop (JObj [(''sha'', JStr ''abc'')]) ''sha'' = Inr (JStr ''abc'') \<and> truthy (JStr ''abc'') \<and>
   snd (uploadFile (scripted (Inr resp_found) (Inr resp_stored) offline)
          ''u'' ''xi-a'' ''p'' (JStr ''Yw=='') ''t0k'' ''m'' []) =
     [\<lparr>req_method = ''GET'', req_url = ''https://api.github.com/repos/u/xi-a/contents/p'',
       req_headers = githubHeaders ''t0k'' False, req_body = None\<rparr>,
      \<lparr>req_method = ''PUT'', req_url = ''https://api.github.com/repos/u/xi-a/contents/p'',
       req_headers = githubHeaders ''t0k'' True,
       req_body = Some (JObj [(''message'', JStr ''m''), (''content'', JStr ''Yw==''),
                              (''branch'', JStr ''main''), (''sha'', JStr ''abc'')])\<rparr>] \<and>
   scripted (Inr resp_not_found) (Inr resp_stored) offline
     ([] @ [\<lparr>req_method = ''GET'', req_url = ''https://api.github.com/repos/u/xi-a/contents/p'',
             req_headers = githubHeaders ''t0k'' False, req_body = None\<rparr>]) = Inr resp_not_found \<and>
   \<not> ok resp_not_found \<and>
   snd (uploadFile (scripted (Inr resp_not_found) (Inr resp_stored) offline)
          ''u'' ''xi-a'' ''p'' (JStr ''Yw=='') ''t0k'' ''m'' []) =
     [\<lparr>req_method = ''GET'', req_url = ''https://api.github.com/repos/u/xi-a/contents/p'',
       req_headers = githubHeaders ''t0k'' False, req_body = None\<rparr>,
      \<lparr>req_method = ''PUT'', req_url = ''https://api.github.com/repos/u/xi-a/contents/p'',
       req_headers = githubHeaders ''t0k'' True,
       req_body = Some (JObj [(''message'', JStr ''m''), (''content'', JStr ''Yw==''),
                              (''branch'', JStr ''main'')])\<rparr>] \<and>
   scripted offline (Inr resp_stored) offline
     ([] @ [\<lparr>req_method = ''GET'', req_url = ''https://api.github.com/repos/u/xi-a/contents/p'',
             req_headers = githubHeaders ''t0k'' False, req_body = None\<rparr>])
     = Inl (Exn ''Network connection lost.'') \<and>
   snd (uploadFile (scripted offline (Inr resp_stored) offline)
          ''u'' ''xi-a'' ''p'' (JStr ''Yw=='') ''t0k'' ''m'' []) =
     [\<lparr>req_method = ''GET'', req_url = ''https://api.github.com/repos/u/xi-a/contents/p'',
       req_headers = githubHeaders ''t0k'' False, req_body = None\<rparr>,
      \<lparr>req_method = ''PUT'', req_url = ''https://api.github.com/repos/u/xi-a/contents/p'',
       req_headers = githubHeaders ''t0k'' True,
       req_body = Some (JObj [(''message'', JStr ''m''), (''content'', JStr ''Yw==''),
                              (''branch'', JStr ''main'')])\<rparr>]"
proof -
  note found = uploadFile_revision_id
    [where net = "scripted (Inr resp_found) (Inr resp_stored) offline" and tr = "[]"
       and username = "''u''" and repoName = "''xi-a''" and filePath = "''p''"
       and content = "JStr ''Yw==''" and token = "''t0k''" and msg = "''m''",
     THEN conjunct1, rule_format,
     of resp_found "JObj [(''sha'', JStr ''abc'')]" "JStr ''abc''"]
  note absent = uploadFile_revision_id
    [where net = "scripted (Inr resp_not_found) (Inr resp_stored) offline" and tr = "[]"
       and username = "''u''" and repoName = "''xi-a''" and filePath = "''p''"
       and content = "JStr ''Yw==''" and token = "''t0k''" and msg = "''m''",
     THEN conjunct2, THEN conjunct2, THEN conjunct2, rule_format, of resp_not_found]
  note absent' = uploadFile_revision_id
    [where net = "scripted (Inr resp_not_found) (Inr resp_stored) offline" and tr = "[]"
       and username = "''u''" and repoName = "''xi-a''" and filePath = "''p''"
       and content = "JStr ''Yw==''" and token = "''t0k''" and msg = "''m''",
     THEN conjunct2, THEN conjunct1, rule_format]
  note down = uploadFile_revision_id
    [where net = "scripted offline (Inr resp_stored) offline" and tr = "[]"
       and username = "''u''" and repoName = "''xi-a''" and filePath = "''p''"
       and content = "JStr ''Yw==''" and token = "''t0k''" and msg = "''m''",
     THEN conjunct2, THEN conjunct2, THEN conjunct1, rule_format,
     of "Exn ''Network connection lost.''"]
  have h1: "scripted (Inr resp_found) (Inr resp_stored) offline
     ([] @ [\<lparr>req_method = ''GET'', req_url = ''https://api.github.com/repos/u/xi-a/contents/p'',
             req_headers = githubHeaders ''t0k'' False, req_body = None\<rparr>]) = Inr resp_found \<and>
     ok resp_found \<and> json_body resp_found = Inr (JObj [(''sha'', JStr ''abc'')]) \<and>
     get_prop (JObj [(''sha'', JStr ''abc'')]) ''sha'' = Inr (JStr ''abc'') \<and> truthy (JStr ''abc'')"
    by (simp add: scripted_def resp_found_def ok_def)
  have h2: "scripted (Inr resp_not_found) (Inr resp_stored) offline
     ([] @ [\<lparr>req_method = ''GET'', req_url = ''https://api.github.com/repos/u/xi-a/contents/p'',
             req_headers = githubHeaders ''t0k'' False, req_body = None\<rparr>]) = Inr resp_not_found \<and>
     \<not> ok resp_not_found"
    by (simp add: scripted_def resp_not_found_def ok_def)
  have h2': "\<not> (\<exists>r fileData s.
      scripted (Inr resp_not_found) (Inr resp_stored) offline
     ([] @ [\<lparr>req_method = ''GET'', req_url = ''https://api.github.com/repos/u/xi-a/contents/p'',
             req_headers = githubHeaders ''t0k'' False, req_body = None\<rparr>]) = Inr r \<and> ok r \<and>
      json_body r = Inr fileData \<and> get_prop fileData ''sha'' = Inr s \<and> truthy s)"
    using h2 by auto
  have h3: "scripted offline (Inr resp_stored) offline
     ([] @ [\<lparr>req_method = ''GET'', req_url = ''https://api.github.com/repos/u/xi-a/contents/p'',
             req_headers = githubHeaders ''t0k'' False, req_body = None\<rparr>])
     = Inl (Exn ''Network connection lost.'')"
    by (simp add: scripted_def offline_def)
  from found absent absent' down h1 h2 h2' h3 show ?thesis
    by simp
qed

text \<open>
  A successful read alone does not put a revision id on the upsert. The path
  \<^verbatim>\<open>questions/\<close> is a directory, the host answers the read with status 200 and a listing
  (a JSON array), which has no \<^verbatim>\<open>sha\<close> property, and the PUT goes out without one.
\<close>

theorem uploadFile_revision_id_counterexample:
  "scripted (Inr resp_listing) (Inr resp_conflict) offline
     [\<lparr>req_method = ''GET'', req_url = ''https://api.github.com/repos/u/xi-a/contents/questions/'',
       req_headers = githubHeaders ''t0k'' False, req_body = None\<rparr>] = Inr resp_listing \<and>
   ok resp_listing \<and>
   snd (uploadFile (scripted (Inr resp_listing) (Inr resp_conflict) offline)
          ''u'' ''xi-a'' ''questions/'' (JStr ''Yw=='') ''t0k'' ''Add question:  to XI-A'' []) =
     [\<lparr>req_method = ''GET'', req_url = ''https://api.github.com/repos/u/xi-a/contents/questions/'',
       req_headers = githubHeaders ''t0k'' False, req_body = None\<rparr>,
      \<lparr>req_method = ''PUT'', req_url = ''https://api.github.com/repos/u/xi-a/contents/questions/'',
       req_headers = githubHeaders ''t0k'' True,
       req_body = Some (JObj [(''message'', JStr ''Add question:  to XI-A''),
                              (''content'', JStr ''Yw==''),
                              (''branch'', JStr ''main'')])\<rparr>]"
  by code_simp

subsection \<open>Repository name and stored path\<close>



subsection \<open>The outcome of the upsert\<close>

text \<open>
  Claim C3. The last call of \<^verbatim>\<open>uploadFile\<close> is the PUT, so the network's answer to the
  final trace is the answer to the upsert. When that answer has a status outside 200 to 299,
  \<^verbatim>\<open>uploadFile\<close> throws the error \<^verbatim>\<open>GitHub API error: {status}\<close>: the message is made of
  the status alone, the text of the body is read and dropped. When the answer is a success
  whose body holds a \<^verbatim>\<open>content\<close> object, \<^verbatim>\<open>uploadFile\<close> returns exactly
  \<^verbatim>\<open>{url, sha, path}\<close>, the first two being \<^verbatim>\<open>content.html_url\<close> and \<^verbatim>\<open>content.sha\<close> and
  the third the path it was given.
\<close>

theorem uploadFile_outcome:
  fixes net :: network and username repoName filePath token msg :: string
    and content :: jsval and tr :: "request list"
  defines "out \<equiv> uploadFile net username repoName filePath content token msg tr"
  shows "snd out \<noteq> [] \<and> req_method (last (snd out)) = ''PUT'' \<and>
         (\<forall>r. net (snd out) = Inr r \<and> \<not> ok r
            \<longrightarrow> fst out = Inl (Exn (''GitHub API error: '' @ string_of_nat (status r)))) \<and>
         (\<forall>r result c u s.
            net (snd out) = Inr r \<and> ok r \<and> json_body r = Inr result \<and>
            get_prop result ''content'' = Inr c \<and>
            get_prop c ''html_url'' = Inr u \<and> get_prop c ''sha'' = Inr s
            \<longrightarrow> fst out = Inr (JObj [(''url'', u), (''sha'', s), (''path'', JStr filePath)]))"
  unfolding out_def uploadFile_def fetch_def Let_def
  by (auto split: sum.splits)

theorem uploadFile_outcome_witness:
  "scripted (Inr resp_found) (Inr resp_conflict) offline
     (snd (uploadFile (scripted (Inr resp_found) (Inr resp_conflict) offline)
             ''u'' ''xi-a'' ''p'' (JStr ''Yw=='') ''t0k'' ''m'' [])) = Inr resp_conflict \<and>
   \<not> ok resp_conflict \<and>
   fst (uploadFile (scripted (Inr resp_found) (Inr resp_conflict) offline)
          ''u'' ''xi-a'' ''p'' (JStr ''Yw=='') ''t0k'' ''m'' []) = Inl (Exn ''GitHub API error: 409'') \<and>
   scripted (Inr resp_found) (Inr resp_stored) offline
     (snd (uploadFile (scripted (Inr resp_found) (Inr resp_stored) offline)
             ''u'' ''xi-a'' ''p'' (JStr ''Yw=='') ''t0k'' ''m'' [])) = Inr resp_stored \<and>
   ok resp_stored \<and>
   json_body resp_stored =
     Inr (JObj [(''content'', JObj [(''html_url'', JStr ''https://h/f''), (''sha'', JStr ''def'')])]) \<and>
   fst (uploadFile (scripted (Inr resp_found) (Inr resp_stored) offline)
          ''u'' ''xi-a'' ''p'' (JStr ''Yw=='') ''t0k'' ''m'' []) =
     Inr (JObj [(''url'', JStr ''https://h/f''), (''sha'', JStr ''def''), (''path'', JStr ''p'')])"
proof -
  note failed = uploadFile_outcome
    [where net = "scripted (Inr resp_found) (Inr resp_conflict) offline" and tr = "[]"
       and username = "''u''" and repoName = "''xi-a''" and filePath = "''p''"
       and content = "JStr ''Yw==''" and token = "''t0k''" and msg = "''m''",
     THEN conjunct2, THEN conjunct2, THEN conjunct1, rule_format, of resp_conflict]
  note stored = uploadFile_outcome
    [where net = "scripted (Inr resp_found) (Inr resp_stored) offline" and tr = "[]"
       and username = "''u''" and repoName = "''xi-a''" and filePath = "''p''"
       and content = "JStr ''Yw==''" and token = "''t0k''" and msg = "''m''",
     THEN conjunct2, THEN conjunct2, THEN conjunct2, rule_format,
     of resp_stored
        "JObj [(''content'', JObj [(''html_url'', JStr ''https://h/f''), (''sha'', JStr ''def'')])]"
        "JObj [(''html_url'', JStr ''https://h/f''), (''sha'', JStr ''def'')]"
        "JStr ''https://h/f''" "JStr ''def''"]
  have h1: "scripted (Inr resp_found) (Inr resp_conflict) offline
     (snd (uploadFile (scripted (Inr resp_found) (Inr resp_conflict) offline)
             ''u'' ''xi-a'' ''p'' (JStr ''Yw=='') ''t0k'' ''m'' [])) = Inr resp_conflict"
    by code_simp
  have h2: "\<not> ok resp_conflict" "ok resp_stored"
    by (simp_all add: ok_def resp_conflict_def resp_stored_def)
  have h3: "scripted (Inr resp_found) (Inr resp_stored) offline
     (snd (uploadFile (scripted (Inr resp_found) (Inr resp_stored) offline)
             ''u'' ''xi-a'' ''p'' (JStr ''Yw=='') ''t0k'' ''m'' [])) = Inr resp_stored"
    by code_simp
  have h4: "json_body resp_stored =
     Inr (JObj [(''content'', JObj [(''html_url'', JStr ''https://h/f''), (''sha'', JStr ''def'')])])"
    by (simp add: resp_stored_def)
  have digits: "string_of_nat (status resp_conflict) = ''409''"
    by code_simp
  from failed stored h1 h2 h3 h4 digits show ?thesis
    by simp
qed

subsection \<open>A failing script endpoint\<close>

text \<open>
  Claim C4. Take an answer upload whose repository check and upsert succeeded. Whatever the
  script endpoint does, the response is the success envelope with status 200, the same
  message and the same \<^verbatim>\<open>github\<close> result; only the \<^verbatim>\<open>drive\<close> field depends on it. That
  field is null when the POST to the endpoint throws, when its response body is not JSON,
  and when the content is not base64 (then no call is made at all).
\<close>

theorem webhook_failure_isolated:
  fixes rt :: runtime and net :: network and today token cls :: string and ctx :: request_context
    and formData :: "string \<Rightarrow> string option"
  assumes tok: "GITHUB_TOKEN (ctx_env ctx) = Some token" "token \<noteq> []"
    and form: "ctx_formData ctx = Inr formData" "formData ''class'' = Some cls"
    and answer: "or_default (formData ''type'') ''question'' = ''answer''"
  defines "user \<equiv> or_default (GITHUB_USER (ctx_env ctx)) ''iitjeelf''"
  defines "date \<equiv> or_default (formData ''date'') today"
  defines "content \<equiv> formData ''content''"
  defines "webhookRequest \<equiv> \<lambda>url decoded.
             \<lparr>req_method = ''POST'', req_url = url,
              req_headers = [(''Content-Type'', ''application/json'')],
              req_body = Some (JObj [(''class'', JStr (toUpperCase rt (toLowerCase rt cls))),
                                     (''date'', JStr date),
                                     (''content'', JStr decoded)])\<rparr>"
  assumes repo: "ensureRepo rt net user (toLowerCase rt cls) token [] = (Inr b, tr1)"
    and upload: "uploadFile net user (toLowerCase rt cls) (''answers/answer-key-'' @ date @ ''.txt'')
                   (field_value content) token
                   (''Add answer key for '' @ toUpperCase rt (toLowerCase rt cls) @ '' - '' @ date) tr1
                 = (Inr github, tr2)"
  shows "\<exists>drive tr3.
           onRequestPost rt net today ctx =
             (\<lparr>reply_status = 200,
               reply_headers = [(''Content-Type'', ''application/json''),
                                (''Access-Control-Allow-Origin'', ''*'')],
               reply_body = JObj [(''success'', JBool True),
                                  (''message'', JStr (''Uploaded to '' @ toUpperCase rt (toLowerCase rt cls))),
                                  (''github'', github), (''drive'', drive)]\<rparr>, tr3) \<and>
           (\<forall>url decoded e.
              GOOGLE_SCRIPT_URL (ctx_env ctx) = Some url \<and> url \<noteq> [] \<and>
              atob (field_text content) = Inr decoded \<and>
              net (tr2 @ [webhookRequest url decoded]) = Inl e
              \<longrightarrow> drive = JNull) \<and>
           (\<forall>url decoded r e.
              GOOGLE_SCRIPT_URL (ctx_env ctx) = Some url \<and> url \<noteq> [] \<and>
              atob (field_text content) = Inr decoded \<and>
              net (tr2 @ [webhookRequest url decoded]) = Inr r \<and> json_body r = Inl e
              \<longrightarrow> drive = JNull) \<and>
           (\<forall>e. atob (field_text content) = Inl e \<longrightarrow> drive = JNull \<and> tr3 = tr2)"
proof -
  obtain d tr3 where dr: "sendToDrive rt net (GOOGLE_SCRIPT_URL (ctx_env ctx)) (toLowerCase rt cls)
            date content tr2 = (d, tr3)"
    by (cases "sendToDrive rt net (GOOGLE_SCRIPT_URL (ctx_env ctx)) (toLowerCase rt cls) date content tr2")
  have run: "onRequestPost rt net today ctx =
      (successResponse [(''message'', JStr (''Uploaded to '' @ toUpperCase rt (toLowerCase rt cls))),
                        (''github'', github), (''drive'', d)], tr3)"
    using upload_try_after_repo [OF tok form repo [unfolded user_def], where today = today] answer upload dr
    by (simp add: onRequestPost_def user_def date_def content_def)
  have a: "\<forall>url decoded e.
              GOOGLE_SCRIPT_URL (ctx_env ctx) = Some url \<and> url \<noteq> [] \<and>
              atob (field_text content) = Inr decoded \<and>
              net (tr2 @ [webhookRequest url decoded]) = Inl e
              \<longrightarrow> d = JNull"
    using dr unfolding sendToDrive_def fetch_def Let_def webhookRequest_def
    by auto
  have a': "\<forall>url decoded r e.
              GOOGLE_SCRIPT_URL (ctx_env ctx) = Some url \<and> url \<noteq> [] \<and>
              atob (field_text content) = Inr decoded \<and>
              net (tr2 @ [webhookRequest url decoded]) = Inr r \<and> json_body r = Inl e
              \<longrightarrow> d = JNull"
    using dr unfolding sendToDrive_def fetch_def Let_def webhookRequest_def
    by auto
  have b: "\<forall>e. atob (field_text content) = Inl e \<longrightarrow> d = JNull \<and> tr3 = tr2"
    using dr unfolding sendToDrive_def fetch_def Let_def
    by (auto split: option.splits if_splits)
  from run a a' b show ?thesis
    by (simp add: successResponse_def)
qed

theorem webhook_failure_isolated_witness:
  "GITHUB_TOKEN (ctx_env (ctx_of form_answer)) = Some ''t0k'' \<and> ''t0k'' \<noteq> [] \<and>
   ctx_formData (ctx_of form_answer) = Inr form_answer \<and> form_answer ''class'' = Some ''XI-A'' \<and>
   or_default (form_answer ''type'') ''question'' = ''answer'' \<and>
   GOOGLE_SCRIPT_URL (ctx_env (ctx_of form_answer)) = Some ''https://hook'' \<and>
   atob (field_text (form_answer ''content'')) = Inr ''hello'' \<and>
   fst (onRequestPost ascii_runtime (scripted (Inr resp_found) (Inr resp_stored) offline)
          ''2024-05-02'' (ctx_of form_answer)) =
     \<lparr>reply_status = 200,
      reply_headers = [(''Content-Type'', ''application/json''), (''Access-Control-Allow-Origin'', ''*'')],
      reply_body = JObj [(''success'', JBool True),
                         (''message'', JStr ''Uploaded to XI-A''),
                         (''github'', JObj [(''url'', JStr ''https://h/f''), (''sha'', JStr ''def''),
                                            (''path'', JStr ''answers/answer-key-2024-05-01.txt'')]),
                         (''drive'', JNull)]\<rparr> \<and>
   fst (onRequestPost ascii_runtime (scripted (Inr resp_found) (Inr resp_stored) (Inr resp_not_json))
          ''2024-05-02'' (ctx_of form_answer)) =
     \<lparr>reply_status = 200,
      reply_headers = [(''Content-Type'', ''application/json''), (''Access-Control-Allow-Origin'', ''*'')],
      reply_body = JObj [(''success'', JBool True),
                         (''message'', JStr ''Uploaded to XI-A''),
                         (''github'', JObj [(''url'', JStr ''https://h/f''), (''sha'', JStr ''def''),
                                            (''path'', JStr ''answers/answer-key-2024-05-01.txt'')]),
                         (''drive'', JNull)]\<rparr>"
proof -
  have tok: "GITHUB_TOKEN (ctx_env (ctx_of form_answer)) = Some ''t0k''" "''t0k'' \<noteq> []"
    by (simp_all add: ctx_of_simps)
  have form: "ctx_formData (ctx_of form_answer) = Inr form_answer" "form_answer ''class'' = Some ''XI-A''"
    by (simp_all add: ctx_of_simps form_answer_def)
  have url: "GOOGLE_SCRIPT_URL (ctx_env (ctx_of form_answer)) = Some ''https://hook''"
    by (simp add: ctx_of_simps)
  have repo: "ensureRepo ascii_runtime (scripted (Inr resp_found) (Inr resp_stored) post)
        (or_default (GITHUB_USER (ctx_env (ctx_of form_answer))) ''iitjeelf'') (toLowerCase ascii_runtime ''XI-A'')
        ''t0k'' [] =
      (Inr True,
       [\<lparr>req_method = ''GET'', req_url = ''https://api.github.com/repos/iitjeelf/xi-a'',
         req_headers = githubHeaders ''t0k'' False, req_body = None\<rparr>])" for post
    by (simp add: run_values ensureRepo_def fetch_def scripted_def resp_found_def ok_def Let_def
          or_default_def ctx_of_simps)
  have upload: "uploadFile (scripted (Inr resp_found) (Inr resp_stored) post)
        (or_default (GITHUB_USER (ctx_env (ctx_of form_answer))) ''iitjeelf'') (toLowerCase ascii_runtime ''XI-A'')
        (''answers/answer-key-'' @ or_default (form_answer ''date'') ''2024-05-02'' @ ''.txt'')
        (field_value (form_answer ''content'')) ''t0k''
        (''Add answer key for '' @ toUpperCase ascii_runtime (toLowerCase ascii_runtime ''XI-A'') @ '' - ''
           @ or_default (form_answer ''date'') ''2024-05-02'')
        [\<lparr>req_method = ''GET'', req_url = ''https://api.github.com/repos/iitjeelf/xi-a'',
          req_headers = githubHeaders ''t0k'' False, req_body = None\<rparr>] =
      (Inr (JObj [(''url'', JStr ''https://h/f''), (''sha'', JStr ''def''),
                  (''path'', JStr ''answers/answer-key-2024-05-01.txt'')]),
       [\<lparr>req_method = ''GET'', req_url = ''https://api.github.com/repos/iitjeelf/xi-a'',
         req_headers = githubHeaders ''t0k'' False, req_body = None\<rparr>,
        \<lparr>req_method = ''GET'',
         req_url = ''https://api.github.com/repos/iitjeelf/xi-a/contents/answers/answer-key-2024-05-01.txt'',
         req_headers = githubHeaders ''t0k'' False, req_body = None\<rparr>,
        \<lparr>req_method = ''PUT'',
         req_url = ''https://api.github.com/repos/iitjeelf/xi-a/contents/answers/answer-key-2024-05-01.txt'',
         req_headers = githubHeaders ''t0k'' True,
         req_body = Some (JObj [(''message'', JStr ''Add answer key for XI-A - 2024-05-01''),
                                (''content'', JStr ''aGVsbG8=''), (''branch'', JStr ''main''),
                                (''sha'', JStr ''abc'')])\<rparr>])" for post
    by (simp add: run_values uploadFile_def fetch_def scripted_def resp_found_def resp_stored_def
          ok_def field_value_def form_answer_def or_default_def ctx_of_simps Let_def)
  from webhook_failure_isolated [OF tok form run_values(5) repo [of offline] upload [of offline]]
  have down: "fst (onRequestPost ascii_runtime (scripted (Inr resp_found) (Inr resp_stored) offline)
          ''2024-05-02'' (ctx_of form_answer)) =
     \<lparr>reply_status = 200,
      reply_headers = [(''Content-Type'', ''application/json''), (''Access-Control-Allow-Origin'', ''*'')],
      reply_body = JObj [(''success'', JBool True),
                         (''message'', JStr ''Uploaded to XI-A''),
                         (''github'', JObj [(''url'', JStr ''https://h/f''), (''sha'', JStr ''def''),
                                            (''path'', JStr ''answers/answer-key-2024-05-01.txt'')]),
                         (''drive'', JNull)]\<rparr>"
    by (auto simp add: run_values url scripted_list offline_def)
  from webhook_failure_isolated [OF tok form run_values(5) repo [of "Inr resp_not_json"]
      upload [of "Inr resp_not_json"]]
  have html: "fst (onRequestPost ascii_runtime (scripted (Inr resp_found) (Inr resp_stored) (Inr resp_not_json))
          ''2024-05-02'' (ctx_of form_answer)) =
     \<lparr>reply_status = 200,
      reply_headers = [(''Content-Type'', ''application/json''), (''Access-Control-Allow-Origin'', ''*'')],
      reply_body = JObj [(''success'', JBool True),
                         (''message'', JStr ''Uploaded to XI-A''),
                         (''github'', JObj [(''url'', JStr ''https://h/f''), (''sha'', JStr ''def''),
                                            (''path'', JStr ''answers/answer-key-2024-05-01.txt'')]),
                         (''drive'', JNull)]\<rparr>"
    by (auto simp add: run_values url scripted_list resp_not_json_def)
  from down html tok form url run_values(5,7) show ?thesis
    by simp
qed

subsection \<open>Missing access token\<close>

text \<open>
  Claim C5. When the access token is not configured (the variable is unset or empty), the
  handler returns the failure envelope at once, whatever the request and the network are,
  and the trace of outbound calls is empty: no repository check or creation, no file read
  or write, no call of the script endpoint.
\<close>

theorem missing_token_no_calls:
  assumes "GITHUB_TOKEN (ctx_env ctx) = None \<or> GITHUB_TOKEN (ctx_env ctx) = Some []"
  shows "onRequestPost rt net today ctx =
           (\<lparr>reply_status = 500,
             reply_headers = [(''Content-Type'', ''application/json''), (''Access-Control-Allow-Origin'', ''*'')],
             reply_body = JObj [(''success'', JBool False), (''message'', JStr ''No GitHub token'')]\<rparr>,
            [])"
  using assms by (auto simp add: onRequestPost_def upload_try_def errorResponse_def)

theorem missing_token_no_calls_witness:
  "GITHUB_TOKEN (ctx_env ctx_no_token) = None \<and>
   onRequestPost ascii_runtime (scripted (Inr resp_found) (Inr resp_stored) (Inr resp_drive)) ''2024-05-02'' ctx_no_token =
     (\<lparr>reply_status = 500,
       reply_headers = [(''Content-Type'', ''application/json''), (''Access-Control-Allow-Origin'', ''*'')],
       reply_body = JObj [(''success'', JBool False), (''message'', JStr ''No GitHub token'')]\<rparr>,
      [])"
proof -
  have unset: "GITHUB_TOKEN (ctx_env ctx_no_token) = None"
    by (simp add: ctx_no_token_def)
  from unset
    missing_token_no_calls [where ctx = ctx_no_token and rt = ascii_runtime
      and net = "scripted (Inr resp_found) (Inr resp_stored) (Inr resp_drive)"
      and today = "''2024-05-02''"]
  show ?thesis by simp
qed

subsection \<open>Ensuring the repository\<close>

text \<open>
  Claim C6. When the read of the repository answers with a success status, \<^verbatim>\<open>ensureRepo\<close>
  returns at once and that read is its only call. In every other case (another status, or
  the read threw) it goes on to POST the creation request. When the creation is answered
  with a status outside 200 to 299, \<^verbatim>\<open>ensureRepo\<close> throws; when that answer is a JSON value
  with a \<^verbatim>\<open>message\<close> to read, and the template literal's conversion of this message to
  a string yields \<^verbatim>\<open>printed\<close>, the error is
  \<^verbatim>\<open>Failed to create repo {name}: {printed}\<close>, and the handler's response is the failure
  envelope, status 500, carrying exactly this text. (When the conversion itself throws, as
  for a message that is an object with a \<^verbatim>\<open>toString\<close> member of its own, \<^verbatim>\<open>ensureRepo\<close>
  still throws: this is the case of the second statement.) The statement holds for every
  behaviour of the platform's case mappings and number formatting.
\<close>

theorem ensureRepo_outcome:
  fixes rt :: runtime and net :: network and username repoName token today :: string and tr :: "request list"
  defines "checkRequest \<equiv>
             \<lparr>req_method = ''GET'',
              req_url = ''https://api.github.com/repos/'' @ username @ ''/'' @ repoName,
              req_headers = githubHeaders token False, req_body = None\<rparr>"
  defines "createRequest \<equiv>
             \<lparr>req_method = ''POST'', req_url = ''https://api.github.com/user/repos'',
              req_headers = githubHeaders token True,
              req_body = Some (JObj [(''name'', JStr repoName),
                                     (''private'', JBool False),
                                     (''description'', JStr (''LFJC Class '' @ toUpperCase rt repoName)),
                                     (''auto_init'', JBool True)])\<rparr>"
  shows "(\<forall>r. net (tr @ [checkRequest]) = Inr r \<and> ok r \<longrightarrow>
            ensureRepo rt net username repoName token tr = (Inr True, tr @ [checkRequest])) \<and>
         (\<not> (\<exists>r. net (tr @ [checkRequest]) = Inr r \<and> ok r) \<longrightarrow>
            snd (ensureRepo rt net username repoName token tr) = tr @ [checkRequest, createRequest] \<and>
            (\<forall>r. net (tr @ [checkRequest, createRequest]) = Inr r \<and> \<not> ok r \<longrightarrow>
               (\<exists>e. fst (ensureRepo rt net username repoName token tr) = Inl e)) \<and>
            (\<forall>r error m printed.
               net (tr @ [checkRequest, createRequest]) = Inr r \<and> \<not> ok r \<and>
               json_body r = Inr error \<and> get_prop error ''message'' = Inr m \<and>
               toString rt m = Inr printed \<longrightarrow>
               fst (ensureRepo rt net username repoName token tr) =
                 Inl (Exn (''Failed to create repo '' @ repoName @ '': '' @ printed)))) \<and>
         (\<forall>ctx formData cls r error m printed.
            GITHUB_TOKEN (ctx_env ctx) = Some token \<and> token \<noteq> [] \<and>
            ctx_formData ctx = Inr formData \<and> formData ''class'' = Some cls \<and>
            repoName = toLowerCase rt cls \<and>
            username = or_default (GITHUB_USER (ctx_env ctx)) ''iitjeelf'' \<and>
            \<not> (\<exists>r. net [checkRequest] = Inr r \<and> ok r) \<and>
            net [checkRequest, createRequest] = Inr r \<and> \<not> ok r \<and>
            json_body r = Inr error \<and> get_prop error ''message'' = Inr m \<and>
               toString rt m = Inr printed \<longrightarrow>
            onRequestPost rt net today ctx =
              (\<lparr>reply_status = 500,
                reply_headers = [(''Content-Type'', ''application/json''),
                                 (''Access-Control-Allow-Origin'', ''*'')],
                reply_body = JObj [(''success'', JBool False),
                                   (''message'', JStr (''Failed to create repo '' @ repoName @ '': ''
                                                        @ printed))]\<rparr>,
               [checkRequest, createRequest]))"
proof (intro conjI)
  show "\<forall>r. net (tr @ [checkRequest]) = Inr r \<and> ok r \<longrightarrow>
            ensureRepo rt net username repoName token tr = (Inr True, tr @ [checkRequest])"
    unfolding checkRequest_def ensureRepo_def fetch_def Let_def by auto
  have create: "\<not> (\<exists>r. net (tr' @ [checkRequest]) = Inr r \<and> ok r) \<longrightarrow>
            snd (ensureRepo rt net username repoName token tr') = tr' @ [checkRequest, createRequest] \<and>
            (\<forall>r. net (tr' @ [checkRequest, createRequest]) = Inr r \<and> \<not> ok r \<longrightarrow>
               (\<exists>e. fst (ensureRepo rt net username repoName token tr') = Inl e)) \<and>
            (\<forall>r error m printed.
               net (tr' @ [checkRequest, createRequest]) = Inr r \<and> \<not> ok r \<and>
               json_body r = Inr error \<and> get_prop error ''message'' = Inr m \<and>
               toString rt m = Inr printed \<longrightarrow>
               fst (ensureRepo rt net username repoName token tr') =
                 Inl (Exn (''Failed to create repo '' @ repoName @ '': '' @ printed)))" for tr'
    unfolding checkRequest_def createRequest_def ensureRepo_def fetch_def Let_def
    by (auto split: sum.splits)
  from create [of tr]
  show "\<not> (\<exists>r. net (tr @ [checkRequest]) = Inr r \<and> ok r) \<longrightarrow>
            snd (ensureRepo rt net username repoName token tr) = tr @ [checkRequest, createRequest] \<and>
            (\<forall>r. net (tr @ [checkRequest, createRequest]) = Inr r \<and> \<not> ok r \<longrightarrow>
               (\<exists>e. fst (ensureRepo rt net username repoName token tr) = Inl e)) \<and>
            (\<forall>r error m printed.
               net (tr @ [checkRequest, createRequest]) = Inr r \<and> \<not> ok r \<and>
               json_body r = Inr error \<and> get_prop error ''message'' = Inr m \<and>
               toString rt m = Inr printed \<longrightarrow>
               fst (ensureRepo rt net username repoName token tr) =
                 Inl (Exn (''Failed to create repo '' @ repoName @ '': '' @ printed)))" .
  show "\<forall>ctx formData cls r error m printed.
            GITHUB_TOKEN (ctx_env ctx) = Some token \<and> token \<noteq> [] \<and>
            ctx_formData ctx = Inr formData \<and> formData ''class'' = Some cls \<and>
            repoName = toLowerCase rt cls \<and>
            username = or_default (GITHUB_USER (ctx_env ctx)) ''iitjeelf'' \<and>
            \<not> (\<exists>r. net [checkRequest] = Inr r \<and> ok r) \<and>
            net [checkRequest, createRequest] = Inr r \<and> \<not> ok r \<and>
            json_body r = Inr error \<and> get_prop error ''message'' = Inr m \<and>
               toString rt m = Inr printed \<longrightarrow>
            onRequestPost rt net today ctx =
              (\<lparr>reply_status = 500,
                reply_headers = [(''Content-Type'', ''application/json''),
                                 (''Access-Control-Allow-Origin'', ''*'')],
                reply_body = JObj [(''success'', JBool False),
                                   (''message'', JStr (''Failed to create repo '' @ repoName @ '': ''
                                                        @ printed))]\<rparr>,
               [checkRequest, createRequest])"
  proof (intro allI impI, elim conjE)
    fix ctx :: request_context and formData cls r error m printed
    assume tok: "GITHUB_TOKEN (ctx_env ctx) = Some token" "token \<noteq> []"
      and form: "ctx_formData ctx = Inr formData" "formData ''class'' = Some cls"
      and names: "repoName = toLowerCase rt cls"
        "username = or_default (GITHUB_USER (ctx_env ctx)) ''iitjeelf''"
      and missing: "\<not> (\<exists>r. net [checkRequest] = Inr r \<and> ok r)"
      and refused: "net [checkRequest, createRequest] = Inr r" "\<not> ok r"
        "json_body r = Inr error" "get_prop error ''message'' = Inr m"
        "toString rt m = Inr printed"
    from create [of "[]"] missing refused
    have "ensureRepo rt net username repoName token [] =
            (Inl (Exn (''Failed to create repo '' @ repoName @ '': '' @ printed)),
             [checkRequest, createRequest])"
      by (simp add: prod_eq_iff)
    from upload_try_after_repo [OF tok form this [unfolded names], where today = today]
    show "onRequestPost rt net today ctx =
              (\<lparr>reply_status = 500,
                reply_headers = [(''Content-Type'', ''application/json''),
                                 (''Access-Control-Allow-Origin'', ''*'')],
                reply_body = JObj [(''success'', JBool False),
                                   (''message'', JStr (''Failed to create repo '' @ repoName @ '': ''
                                                        @ printed))]\<rparr>,
               [checkRequest, createRequest])"
      by (simp add: onRequestPost_def errorResponse_def names)
  qed
qed

theorem ensureRepo_outcome_witness:
  "scripted (Inr resp_found) (Inr resp_stored) (Inr resp_name_taken)
     [\<lparr>req_method = ''GET'', req_url = ''https://api.github.com/repos/iitjeelf/xi-a'',
       req_headers = githubHeaders ''t0k'' False, req_body = None\<rparr>] = Inr resp_found \<and>
   ok resp_found \<and>
   ensureRepo ascii_runtime (scripted (Inr resp_found) (Inr resp_stored) (Inr resp_name_taken))
     ''iitjeelf'' ''xi-a'' ''t0k'' [] =
     (Inr True,
      [\<lparr>req_method = ''GET'', req_url = ''https://api.github.com/repos/iitjeelf/xi-a'',
        req_headers = githubHeaders ''t0k'' False, req_body = None\<rparr>]) \<and>
   scripted (Inr resp_not_found) (Inr resp_stored) (Inr resp_name_taken)
     [\<lparr>req_method = ''GET'', req_url = ''https://api.github.com/repos/iitjeelf/xi-a'',
       req_headers = githubHeaders ''t0k'' False, req_body = None\<rparr>] = Inr resp_not_found \<and>
   \<not> ok resp_not_found \<and>
   scripted (Inr resp_not_found) (Inr resp_stored) (Inr resp_name_taken)
     [\<lparr>req_method = ''GET'', req_url = ''https://api.github.com/repos/iitjeelf/xi-a'',
       req_headers = githubHeaders ''t0k'' False, req_body = None\<rparr>,
      \<lparr>req_method = ''POST'', req_url = ''https://api.github.com/user/repos'',
       req_headers = githubHeaders ''t0k'' True,
       req_body = Some (JObj [(''name'', JStr ''xi-a''), (''private'', JBool False),
                              (''description'', JStr ''LFJC Class XI-A''),
                              (''auto_init'', JBool True)])\<rparr>] = Inr resp_name_taken \<and>
   \<not> ok resp_name_taken \<and>
   json_body resp_name_taken = Inr (JObj [(''message'', JStr ''name already exists'')]) \<and>
   ensureRepo ascii_runtime (scripted (Inr resp_not_found) (Inr resp_stored) (Inr resp_name_taken))
     ''iitjeelf'' ''xi-a'' ''t0k'' [] =
     (Inl (Exn ''Failed to create repo xi-a: name already exists''),
      [\<lparr>req_method = ''GET'', req_url = ''https://api.github.com/repos/iitjeelf/xi-a'',
        req_headers = githubHeaders ''t0k'' False, req_body = None\<rparr>,
       \<lparr>req_method = ''POST'', req_url = ''https://api.github.com/user/repos'',
        req_headers = githubHeaders ''t0k'' True,
        req_body = Some (JObj [(''name'', JStr ''xi-a''), (''private'', JBool False),
                               (''description'', JStr ''LFJC Class XI-A''),
                               (''auto_init'', JBool True)])\<rparr>]) \<and>
   onRequestPost ascii_runtime (scripted (Inr resp_not_found) (Inr resp_stored) (Inr resp_name_taken))
     ''2024-05-02'' (ctx_of form_answer) =
     (\<lparr>reply_status = 500,
       reply_headers = [(''Content-Type'', ''application/json''), (''Access-Control-Allow-Origin'', ''*'')],
       reply_body = JObj [(''success'', JBool False),
                          (''message'', JStr ''Failed to create repo xi-a: name already exists'')]\<rparr>,
      [\<lparr>req_method = ''GET'', req_url = ''https://api.github.com/repos/iitjeelf/xi-a'',
        req_headers = githubHeaders ''t0k'' False, req_body = None\<rparr>,
       \<lparr>req_method = ''POST'', req_url = ''https://api.github.com/user/repos'',
        req_headers = githubHeaders ''t0k'' True,
        req_body = Some (JObj [(''name'', JStr ''xi-a''), (''private'', JBool False),
                               (''description'', JStr ''LFJC Class XI-A''),
                               (''auto_init'', JBool True)])\<rparr>])"
proof -
  note exists = ensureRepo_outcome
    [where rt = ascii_runtime and net = "scripted (Inr resp_found) (Inr resp_stored) (Inr resp_name_taken)"
       and username = "''iitjeelf''" and repoName = "''xi-a''" and token = "''t0k''" and tr = "[]",
     THEN conjunct1, rule_format, of resp_found]
  note creates = ensureRepo_outcome
    [where rt = ascii_runtime and net = "scripted (Inr resp_not_found) (Inr resp_stored) (Inr resp_name_taken)"
       and username = "''iitjeelf''" and repoName = "''xi-a''" and token = "''t0k''" and tr = "[]",
     THEN conjunct2, THEN conjunct1, rule_format]
  note surfaces = ensureRepo_outcome
    [where rt = ascii_runtime and net = "scripted (Inr resp_not_found) (Inr resp_stored) (Inr resp_name_taken)"
       and username = "''iitjeelf''" and repoName = "''xi-a''" and token = "''t0k''" and tr = "[]"
       and today = "''2024-05-02''",
     THEN conjunct2, THEN conjunct2, rule_format,
     of "ctx_of form_answer" form_answer "''XI-A''" resp_name_taken
        "JObj [(''message'', JStr ''name already exists'')]" "JStr ''name already exists''"
        "''name already exists''"]
  have h1: "scripted (Inr resp_found) (Inr resp_stored) (Inr resp_name_taken)
     [\<lparr>req_method = ''GET'', req_url = ''https://api.github.com/repos/iitjeelf/xi-a'',
       req_headers = githubHeaders ''t0k'' False, req_body = None\<rparr>] = Inr resp_found"
    "ok resp_found"
    by (simp_all add: scripted_def resp_found_def ok_def)
  have h2: "scripted (Inr resp_not_found) (Inr resp_stored) (Inr resp_name_taken)
     [\<lparr>req_method = ''GET'', req_url = ''https://api.github.com/repos/iitjeelf/xi-a'',
       req_headers = githubHeaders ''t0k'' False, req_body = None\<rparr>] = Inr resp_not_found"
    "\<not> ok resp_not_found"
    by (simp_all add: scripted_def resp_not_found_def ok_def)
  have h3: "scripted (Inr resp_not_found) (Inr resp_stored) (Inr resp_name_taken)
     [\<lparr>req_method = ''GET'', req_url = ''https://api.github.com/repos/iitjeelf/xi-a'',
       req_headers = githubHeaders ''t0k'' False, req_body = None\<rparr>,
      \<lparr>req_method = ''POST'', req_url = ''https://api.github.com/user/repos'',
       req_headers = githubHeaders ''t0k'' True,
       req_body = Some (JObj [(''name'', JStr ''xi-a''), (''private'', JBool False),
                              (''description'', JStr ''LFJC Class XI-A''),
                              (''auto_init'', JBool True)])\<rparr>] = Inr resp_name_taken"
    "\<not> ok resp_name_taken"
    "json_body resp_name_taken = Inr (JObj [(''message'', JStr ''name already exists'')])"
    by (simp_all add: scripted_def resp_name_taken_def ok_def)
  have h4: "form_answer ''class'' = Some ''XI-A''"
    by (simp add: form_answer_def)
  from exists creates surfaces h1 h2 h3 h4 show ?thesis
    by (simp add: run_values ctx_of_simps or_default_def prod_eq_iff)
qed

subsection \<open>When the script endpoint is called\<close>

text \<open>
  Claim C7. Every outbound call of an invocation either goes to a URL under
  \<^verbatim>\<open>https://api.github.com/\<close> and carries the GitHub headers, or is the POST to the
  configured script endpoint; the latter happens only for the type \<^verbatim>\<open>answer\<close> with a
  non-empty endpoint URL, and its body is \<^verbatim>\<open>{class, date, content}\<close> with the class as
  \<^verbatim>\<open>toUpperCase\<close> returns it for the lower-cased class field, the date, and the content
  decoded by \<^verbatim>\<open>atob\<close>, whatever the platform's case mappings do. The two kinds of call cannot be confused: the GitHub headers are never the
  single content-type header of the script call. When the endpoint is not configured, or the
  type is not \<^verbatim>\<open>answer\<close>, a success response has \<^verbatim>\<open>drive: null\<close> (and a failure response has
  no \<^verbatim>\<open>drive\<close> field at all).
\<close>

theorem webhook_only_for_answers:
  fixes rt :: runtime and net :: network and today :: string and ctx :: request_context
  defines "calls \<equiv> snd (onRequestPost rt net today ctx)"
  defines "reply \<equiv> fst (onRequestPost rt net today ctx)"
  shows "(\<forall>r\<in>set calls.
            (\<exists>token b rest. GITHUB_TOKEN (ctx_env ctx) = Some token \<and>
               req_headers r = githubHeaders token b \<and> req_url r = ''https://api.github.com/'' @ rest) \<or>
            (\<exists>formData cls url decoded.
               ctx_formData ctx = Inr formData \<and> formData ''class'' = Some cls \<and>
               or_default (formData ''type'') ''question'' = ''answer'' \<and>
               GOOGLE_SCRIPT_URL (ctx_env ctx) = Some url \<and> url \<noteq> [] \<and>
               atob (field_text (formData ''content'')) = Inr decoded \<and>
               r = \<lparr>req_method = ''POST'', req_url = url,
                     req_headers = [(''Content-Type'', ''application/json'')],
                     req_body = Some (JObj [(''class'', JStr (toUpperCase rt (toLowerCase rt cls))),
                                            (''date'', JStr (or_default (formData ''date'') today)),
                                            (''content'', JStr decoded)])\<rparr>)) \<and>
         (\<forall>token b. githubHeaders token b \<noteq> [(''Content-Type'', ''application/json'')]) \<and>
         (GOOGLE_SCRIPT_URL (ctx_env ctx) = None \<or> GOOGLE_SCRIPT_URL (ctx_env ctx) = Some [] \<or>
          (\<exists>formData. ctx_formData ctx = Inr formData \<and>
             or_default (formData ''type'') ''question'' \<noteq> ''answer'')
          \<longrightarrow> (reply_status reply = 200 \<and> get_prop (reply_body reply) ''drive'' = Inr JNull) \<or>
              (reply_status reply = 500 \<and> get_prop (reply_body reply) ''drive'' = Inr JUndefined))"
proof (cases rt net today ctx rule: onRequestPost_cases)
  case (early m)
  then show ?thesis
    using errorResponse_fields [of m] githubHeaders_not_json_only
    by (simp add: calls_def reply_def)
next
  case (repo_failed token formData cls e tr1)
  from ensureRepo_headers [OF repo_failed(5)] repo_failed(1,6) show ?thesis
    using errorResponse_fields [of "exn_message e"] githubHeaders_not_json_only
    by (simp add: calls_def reply_def)
next
  case (upload_failed token formData cls b tr1 path msg e tr2)
  from uploadFile_headers [OF upload_failed(6) ensureRepo_headers [OF upload_failed(5)]]
    upload_failed(1,7)
  show ?thesis
    using errorResponse_fields [of "exn_message e"] githubHeaders_not_json_only
    by (simp add: calls_def reply_def)
next
  case (question_done token formData cls b tr1 msg github tr2)
  from uploadFile_headers [OF question_done(7) ensureRepo_headers [OF question_done(6)]]
    question_done(1,8)
  show ?thesis
    using successResponse_fields [of "JStr (''Uploaded to '' @ toUpperCase rt (toLowerCase rt cls))" github JNull]
      githubHeaders_not_json_only
    by (simp add: calls_def reply_def)
next
  case (answer_done token formData cls b tr1 msg github tr2 drive tr3)
  note gh = uploadFile_headers [OF answer_done(7) ensureRepo_headers [OF answer_done(6)]]
  note fields = successResponse_fields [of "JStr (''Uploaded to '' @ toUpperCase rt (toLowerCase rt cls))" github drive]
  have calls: "\<forall>r\<in>set tr3.
            (\<exists>token b rest. GITHUB_TOKEN (ctx_env ctx) = Some token \<and>
               req_headers r = githubHeaders token b \<and> req_url r = ''https://api.github.com/'' @ rest) \<or>
            (\<exists>formData cls url decoded.
               ctx_formData ctx = Inr formData \<and> formData ''class'' = Some cls \<and>
               or_default (formData ''type'') ''question'' = ''answer'' \<and>
               GOOGLE_SCRIPT_URL (ctx_env ctx) = Some url \<and> url \<noteq> [] \<and>
               atob (field_text (formData ''content'')) = Inr decoded \<and>
               r = \<lparr>req_method = ''POST'', req_url = url,
                     req_headers = [(''Content-Type'', ''application/json'')],
                     req_body = Some (JObj [(''class'', JStr (toUpperCase rt (toLowerCase rt cls))),
                                            (''date'', JStr (or_default (formData ''date'') today)),
                                            (''content'', JStr decoded)])\<rparr>)"
    using sendToDrive_calls [OF answer_done(8)] gh answer_done(1,3,4,5)
    by auto
  have off: "GOOGLE_SCRIPT_URL (ctx_env ctx) = None \<or> GOOGLE_SCRIPT_URL (ctx_env ctx) = Some []
       \<Longrightarrow> drive = JNull"
    using sendToDrive_unconfigured [where script_url = "GOOGLE_SCRIPT_URL (ctx_env ctx)"
        and rt = rt and net = net and className = "toLowerCase rt cls"
        and date = "or_default (formData ''date'') today" and content = "formData ''content''"
        and tr = tr2]
      answer_done(8)
    by simp
  from calls off fields answer_done(3,5,9) show ?thesis
    using githubHeaders_not_json_only
    by (auto simp add: calls_def reply_def)
qed

theorem webhook_only_for_answers_witness:
  "\<lparr>req_method = ''POST'', req_url = ''https://hook'',
     req_headers = [(''Content-Type'', ''application/json'')],
     req_body = Some (JObj [(''class'', JStr ''XI-A''), (''date'', JStr ''2024-05-01''),
                            (''content'', JStr ''hello'')])\<rparr>
     \<in> set (snd (onRequestPost ascii_runtime (scripted (Inr resp_found) (Inr resp_stored) (Inr resp_drive))
                   ''2024-05-02'' (ctx_of form_answer))) \<and>
   (\<exists>formData cls url decoded.
      ctx_formData (ctx_of form_answer) = Inr formData \<and> formData ''class'' = Some cls \<and>
      or_default (formData ''type'') ''question'' = ''answer'' \<and>
      GOOGLE_SCRIPT_URL (ctx_env (ctx_of form_answer)) = Some url \<and> url \<noteq> [] \<and>
      atob (field_text (formData ''content'')) = Inr decoded \<and>
      \<lparr>req_method = ''POST'', req_url = ''https://hook'',
        req_headers = [(''Content-Type'', ''application/json'')],
        req_body = Some (JObj [(''class'', JStr ''XI-A''), (''date'', JStr ''2024-05-01''),
                               (''content'', JStr ''hello'')])\<rparr> =
      \<lparr>req_method = ''POST'', req_url = url,
        req_headers = [(''Content-Type'', ''application/json'')],
        req_body = Some (JObj [(''class'', JStr (toUpperCase ascii_runtime (toLowerCase ascii_runtime cls))),
                               (''date'', JStr (or_default (formData ''date'') ''2024-05-02'')),
                               (''content'', JStr decoded)])\<rparr>) \<and>
   GOOGLE_SCRIPT_URL (ctx_env ctx_no_hook) = None \<and>
   reply_status (fst (onRequestPost ascii_runtime (scripted (Inr resp_found) (Inr resp_stored) (Inr resp_drive))
                        ''2024-05-02'' ctx_no_hook)) = 200 \<and>
   get_prop (reply_body (fst (onRequestPost ascii_runtime (scripted (Inr resp_found) (Inr resp_stored) (Inr resp_drive))
                                ''2024-05-02'' ctx_no_hook))) ''drive'' = Inr JNull \<and>
   reply_status (fst (onRequestPost ascii_runtime (scripted (Inr resp_found) (Inr resp_stored) (Inr resp_drive))
                        ''2024-05-02'' (ctx_of form_question))) = 200 \<and>
   get_prop (reply_body (fst (onRequestPost ascii_runtime (scripted (Inr resp_found) (Inr resp_stored) (Inr resp_drive))
                                ''2024-05-02'' (ctx_of form_question)))) ''drive'' = Inr JNull"
proof -
  have sent: "\<lparr>req_method = ''POST'', req_url = ''https://hook'',
     req_headers = [(''Content-Type'', ''application/json'')],
     req_body = Some (JObj [(''class'', JStr ''XI-A''), (''date'', JStr ''2024-05-01''),
                            (''content'', JStr ''hello'')])\<rparr>
     \<in> set (snd (onRequestPost ascii_runtime (scripted (Inr resp_found) (Inr resp_stored) (Inr resp_drive))
                   ''2024-05-02'' (ctx_of form_answer)))"
    by code_simp
  have off: "GOOGLE_SCRIPT_URL (ctx_env ctx_no_hook) = None"
    by (simp add: ctx_no_hook_def)
  have ok: "reply_status (fst (onRequestPost ascii_runtime (scripted (Inr resp_found) (Inr resp_stored) (Inr resp_drive))
                        ''2024-05-02'' ctx_no_hook)) = 200"
    "reply_status (fst (onRequestPost ascii_runtime (scripted (Inr resp_found) (Inr resp_stored) (Inr resp_drive))
                        ''2024-05-02'' (ctx_of form_question))) = 200"
    by code_simp+
  have question: "\<exists>formData. ctx_formData (ctx_of form_question) = Inr formData \<and>
      or_default (formData ''type'') ''question'' \<noteq> ''answer''"
    by (simp add: ctx_of_simps form_question_def or_default_def)
  note answers = webhook_only_for_answers
    [where rt = ascii_runtime
       and net = "scripted (Inr resp_found) (Inr resp_stored) (Inr resp_drive)"
       and today = "''2024-05-02''" and ctx = "ctx_of form_answer", THEN conjunct1, THEN bspec, OF sent]
  note no_hook = webhook_only_for_answers
    [where rt = ascii_runtime
       and net = "scripted (Inr resp_found) (Inr resp_stored) (Inr resp_drive)"
       and today = "''2024-05-02''" and ctx = ctx_no_hook, THEN conjunct2, THEN conjunct2, rule_format]
  note questions = webhook_only_for_answers
    [where rt = ascii_runtime
       and net = "scripted (Inr resp_found) (Inr resp_stored) (Inr resp_drive)"
       and today = "''2024-05-02''" and ctx = "ctx_of form_question", THEN conjunct2, THEN conjunct2, rule_format]
  from answers have hook: "\<exists>formData cls url decoded.
      ctx_formData (ctx_of form_answer) = Inr formData \<and> formData ''class'' = Some cls \<and>
      or_default (formData ''type'') ''question'' = ''answer'' \<and>
      GOOGLE_SCRIPT_URL (ctx_env (ctx_of form_answer)) = Some url \<and> url \<noteq> [] \<and>
      atob (field_text (formData ''content'')) = Inr decoded \<and>
      \<lparr>req_method = ''POST'', req_url = ''https://hook'',
        req_headers = [(''Content-Type'', ''application/json'')],
        req_body = Some (JObj [(''class'', JStr ''XI-A''), (''date'', JStr ''2024-05-01''),
                               (''content'', JStr ''hello'')])\<rparr> =
      \<lparr>req_method = ''POST'', req_url = url,
        req_headers = [(''Content-Type'', ''application/json'')],
        req_body = Some (JObj [(''class'', JStr (toUpperCase ascii_runtime (toLowerCase ascii_runtime cls))),
                               (''date'', JStr (or_default (formData ''date'') ''2024-05-02'')),
                               (''content'', JStr decoded)])\<rparr>"
    using githubHeaders_not_json_only githubHeaders_not_json_only [symmetric] by simp
  from no_hook off ok(1)
  have d1: "get_prop (reply_body (fst (onRequestPost ascii_runtime
      (scripted (Inr resp_found) (Inr resp_stored) (Inr resp_drive))
      ''2024-05-02'' ctx_no_hook))) ''drive'' = Inr JNull"
    by simp
  from questions question ok(2)
  have d2: "get_prop (reply_body (fst (onRequestPost ascii_runtime
      (scripted (Inr resp_found) (Inr resp_stored) (Inr resp_drive))
      ''2024-05-02'' (ctx_of form_question)))) ''drive'' = Inr JNull"
    by simp
  from sent hook off ok d1 d2 show ?thesis
    by blast
qed

subsection \<open>Response shaping\<close>

text \<open>
  Claim C8. Every response carries the JSON content type and
  \<^verbatim>\<open>Access-Control-Allow-Origin: *\<close>. When the \<^verbatim>\<open>try\<close> block throws, at whatever step, the
  response has status 500 and the body \<^verbatim>\<open>{success: false, message}\<close>, where the message is
  the exception's message, or \<^verbatim>\<open>Upload failed\<close> when that message is empty. When the block
  returns, the response is what it returned: the failure envelope of the missing token, or
  status 200 with the body \<^verbatim>\<open>{success: true, message, github, drive}\<close>.
\<close>

theorem response_shaping:
  "(\<forall>e tr. upload_try rt net today ctx [] = (Inl e, tr) \<longrightarrow>
      onRequestPost rt net today ctx =
        (\<lparr>reply_status = 500,
          reply_headers = [(''Content-Type'', ''application/json''), (''Access-Control-Allow-Origin'', ''*'')],
          reply_body = JObj [(''success'', JBool False),
                             (''message'', JStr (if exn_message e \<noteq> [] then exn_message e
                                                 else ''Upload failed''))]\<rparr>, tr)) \<and>
   (\<forall>r tr. upload_try rt net today ctx [] = (Inr r, tr) \<longrightarrow>
      onRequestPost rt net today ctx = (r, tr) \<and>
      (r = \<lparr>reply_status = 500,
            reply_headers = [(''Content-Type'', ''application/json''), (''Access-Control-Allow-Origin'', ''*'')],
            reply_body = JObj [(''success'', JBool False), (''message'', JStr ''No GitHub token'')]\<rparr>
       \<or> (\<exists>m g d. r = \<lparr>reply_status = 200,
            reply_headers = [(''Content-Type'', ''application/json''), (''Access-Control-Allow-Origin'', ''*'')],
            reply_body = JObj [(''success'', JBool True), (''message'', JStr m), (''github'', g),
                               (''drive'', d)]\<rparr>)))"
proof (intro conjI allI impI)
  fix e tr assume "upload_try rt net today ctx [] = (Inl e, tr)"
  then show "onRequestPost rt net today ctx =
        (\<lparr>reply_status = 500,
          reply_headers = [(''Content-Type'', ''application/json''), (''Access-Control-Allow-Origin'', ''*'')],
          reply_body = JObj [(''success'', JBool False),
                             (''message'', JStr (if exn_message e \<noteq> [] then exn_message e
                                                 else ''Upload failed''))]\<rparr>, tr)"
    by (simp add: onRequestPost_def errorResponse_def)
next
  fix r tr assume h: "upload_try rt net today ctx [] = (Inr r, tr)"
  then show "onRequestPost rt net today ctx = (r, tr)"
    by (simp add: onRequestPost_def)
  from upload_try_replies [OF h]
  show "r = \<lparr>reply_status = 500,
            reply_headers = [(''Content-Type'', ''application/json''), (''Access-Control-Allow-Origin'', ''*'')],
            reply_body = JObj [(''success'', JBool False), (''message'', JStr ''No GitHub token'')]\<rparr>
       \<or> (\<exists>m g d. r = \<lparr>reply_status = 200,
            reply_headers = [(''Content-Type'', ''application/json''), (''Access-Control-Allow-Origin'', ''*'')],
            reply_body = JObj [(''success'', JBool True), (''message'', JStr m), (''github'', g),
                               (''drive'', d)]\<rparr>)"
    by (auto simp add: errorResponse_def successResponse_def)
qed

theorem response_shaping_witness:
  "upload_try ascii_runtime (scripted (Inr resp_found) (Inr resp_stored) (Inr resp_drive)) ''2024-05-02''
     (ctx_of (form_answer(''class'' := None))) [] =
     (Inl (Exn (''Cannot read properties of null (reading '' @ [CHR 0x27] @ ''toLowerCase''
                  @ [CHR 0x27] @ '')'')), []) \<and>
   onRequestPost ascii_runtime (scripted (Inr resp_found) (Inr resp_stored) (Inr resp_drive)) ''2024-05-02''
     (ctx_of (form_answer(''class'' := None))) =
     (\<lparr>reply_status = 500,
       reply_headers = [(''Content-Type'', ''application/json''), (''Access-Control-Allow-Origin'', ''*'')],
       reply_body = JObj [(''success'', JBool False),
                          (''message'', JStr (''Cannot read properties of null (reading ''
                                               @ [CHR 0x27] @ ''toLowerCase'' @ [CHR 0x27] @ '')''))]\<rparr>,
      []) \<and>
   upload_try ascii_runtime (scripted (Inr resp_found) (Inr resp_stored) (Inr resp_drive)) ''2024-05-02''
     (ctx_of form_question) [] =
     (Inr \<lparr>reply_status = 200,
           reply_headers = [(''Content-Type'', ''application/json''),
                            (''Access-Control-Allow-Origin'', ''*'')],
           reply_body = JObj [(''success'', JBool True),
                              (''message'', JStr ''Uploaded to XI-A''),
                              (''github'', JObj [(''url'', JStr ''https://h/f''), (''sha'', JStr ''def''),
                                                 (''path'', JStr ''questions/q1.pdf'')]),
                              (''drive'', JNull)]\<rparr>,
      [\<lparr>req_method = ''GET'', req_url = ''https://api.github.com/repos/iitjeelf/xi-a'',
        req_headers = githubHeaders ''t0k'' False, req_body = None\<rparr>,
       \<lparr>req_method = ''GET'',
        req_url = ''https://api.github.com/repos/iitjeelf/xi-a/contents/questions/q1.pdf'',
        req_headers = githubHeaders ''t0k'' False, req_body = None\<rparr>,
       \<lparr>req_method = ''PUT'',
        req_url = ''https://api.github.com/repos/iitjeelf/xi-a/contents/questions/q1.pdf'',
        req_headers = githubHeaders ''t0k'' True,
        req_body = Some (JObj [(''message'', JStr ''Add question: q1.pdf to XI-A''),
                               (''content'', JStr ''Yw==''), (''branch'', JStr ''main''),
                               (''sha'', JStr ''abc'')])\<rparr>]) \<and>
   fst (onRequestPost ascii_runtime (scripted (Inr resp_found) (Inr resp_stored) (Inr resp_drive)) ''2024-05-02''
          (ctx_of form_question)) =
     \<lparr>reply_status = 200,
      reply_headers = [(''Content-Type'', ''application/json''), (''Access-Control-Allow-Origin'', ''*'')],
      reply_body = JObj [(''success'', JBool True),
                         (''message'', JStr ''Uploaded to XI-A''),
                         (''github'', JObj [(''url'', JStr ''https://h/f''), (''sha'', JStr ''def''),
                                            (''path'', JStr ''questions/q1.pdf'')]),
                         (''drive'', JNull)]\<rparr>"
proof -
  have thrown: "upload_try ascii_runtime (scripted (Inr resp_found) (Inr resp_stored) (Inr resp_drive)) ''2024-05-02''
     (ctx_of (form_answer(''class'' := None))) [] =
     (Inl (Exn (''Cannot read properties of null (reading '' @ [CHR 0x27] @ ''toLowerCase''
                  @ [CHR 0x27] @ '')'')), [])"
    by (simp add: upload_try_def ctx_of_simps)
  have returned: "upload_try ascii_runtime (scripted (Inr resp_found) (Inr resp_stored) (Inr resp_drive)) ''2024-05-02''
     (ctx_of form_question) [] =
     (Inr \<lparr>reply_status = 200,
           reply_headers = [(''Content-Type'', ''application/json''),
                            (''Access-Control-Allow-Origin'', ''*'')],
           reply_body = JObj [(''success'', JBool True),
                              (''message'', JStr ''Uploaded to XI-A''),
                              (''github'', JObj [(''url'', JStr ''https://h/f''), (''sha'', JStr ''def''),
                                                 (''path'', JStr ''questions/q1.pdf'')]),
                              (''drive'', JNull)]\<rparr>,
      [\<lparr>req_method = ''GET'', req_url = ''https://api.github.com/repos/iitjeelf/xi-a'',
        req_headers = githubHeaders ''t0k'' False, req_body = None\<rparr>,
       \<lparr>req_method = ''GET'',
        req_url = ''https://api.github.com/repos/iitjeelf/xi-a/contents/questions/q1.pdf'',
        req_headers = githubHeaders ''t0k'' False, req_body = None\<rparr>,
       \<lparr>req_method = ''PUT'',
        req_url = ''https://api.github.com/repos/iitjeelf/xi-a/contents/questions/q1.pdf'',
        req_headers = githubHeaders ''t0k'' True,
        req_body = Some (JObj [(''message'', JStr ''Add question: q1.pdf to XI-A''),
                               (''content'', JStr ''Yw==''), (''branch'', JStr ''main''),
                               (''sha'', JStr ''abc'')])\<rparr>])"
    by code_simp
  from response_shaping [where rt = ascii_runtime
      and net = "scripted (Inr resp_found) (Inr resp_stored) (Inr resp_drive)"
      and today = "''2024-05-02''" and ctx = "ctx_of (form_answer(''class'' := None))",
      THEN conjunct1, rule_format, OF thrown]
    response_shaping [where rt = ascii_runtime
      and net = "scripted (Inr resp_found) (Inr resp_stored) (Inr resp_drive)"
      and today = "''2024-05-02''" and ctx = "ctx_of form_question",
      THEN conjunct2, rule_format, OF returned]
    thrown returned
  show ?thesis by simp
qed

text \<open>
  The failure envelope does not always carry the exception's message: \<^verbatim>\<open>errorResponse\<close>
  replaces an empty message by \<^verbatim>\<open>Upload failed\<close>. Here reading the form fails with an error
  whose message is empty.
\<close>

theorem response_shaping_counterexample:
  "upload_try ascii_runtime (scripted (Inr resp_found) (Inr resp_stored) (Inr resp_drive)) ''2024-05-02''
     ctx_silent_error [] = (Inl (Exn []), []) \<and>
   exn_message (Exn []) = [] \<and>
   reply_body (fst (onRequestPost ascii_runtime (scripted (Inr resp_found) (Inr resp_stored) (Inr resp_drive))
                      ''2024-05-02'' ctx_silent_error)) =
     JObj [(''success'', JBool False), (''message'', JStr ''Upload failed'')]"
  by code_simp

subsection \<open>A question without a filename\<close>

text \<open>
  Claim C9. A request of a type other than \<^verbatim>\<open>answer\<close> whose form has no \<^verbatim>\<open>filename\<close> field
  is not rejected. Once the repository is ensured, the handler reads and writes the file at
  the literal path \<^verbatim>\<open>questions/null\<close>, with the commit message
  \<^verbatim>\<open>Add question: null to {CLASS}\<close>, where \<^verbatim>\<open>{CLASS}\<close> is what \<^verbatim>\<open>toUpperCase\<close> returns for
  the lower-cased class field, and a success response reports that path. This holds whatever
  the platform's case mappings do.
\<close>

theorem question_without_filename:
  fixes rt :: runtime and net :: network and today token cls :: string and ctx :: request_context
    and formData :: "string \<Rightarrow> string option"
  assumes tok: "GITHUB_TOKEN (ctx_env ctx) = Some token" "token \<noteq> []"
    and form: "ctx_formData ctx = Inr formData" "formData ''class'' = Some cls"
    and question: "or_default (formData ''type'') ''question'' \<noteq> ''answer''"
    and nofile: "formData ''filename'' = None"
  defines "user \<equiv> or_default (GITHUB_USER (ctx_env ctx)) ''iitjeelf''"
  defines "fileUrl \<equiv> ''https://api.github.com/repos/'' @ user @ ''/'' @ toLowerCase rt cls
                        @ ''/contents/questions/null''"
  assumes repo: "ensureRepo rt net user (toLowerCase rt cls) token [] = (Inr b, tr1)"
  shows "(\<exists>extra.
            snd (onRequestPost rt net today ctx) =
              tr1 @ [\<lparr>req_method = ''GET'', req_url = fileUrl,
                       req_headers = githubHeaders token False, req_body = None\<rparr>,
                     \<lparr>req_method = ''PUT'', req_url = fileUrl,
                       req_headers = githubHeaders token True,
                       req_body = Some (JObj ([(''message'', JStr (''Add question: null to '' @ toUpperCase rt (toLowerCase rt cls))),
                                               (''content'', field_value (formData ''content'')),
                                               (''branch'', JStr ''main'')] @ extra))\<rparr>]) \<and>
         (reply_status (fst (onRequestPost rt net today ctx)) = 200 \<longrightarrow>
            (\<exists>u s. get_prop (reply_body (fst (onRequestPost rt net today ctx))) ''github'' =
               Inr (JObj [(''url'', u), (''sha'', s), (''path'', JStr ''questions/null'')])))"
proof -
  obtain g tr2 where up: "uploadFile net user (toLowerCase rt cls) ''questions/null''
          (field_value (formData ''content'')) token
          (''Add question: null to '' @ toUpperCase rt (toLowerCase rt cls)) tr1 = (g, tr2)"
    by (cases "uploadFile net user (toLowerCase rt cls) ''questions/null''
          (field_value (formData ''content'')) token
          (''Add question: null to '' @ toUpperCase rt (toLowerCase rt cls)) tr1")
  have run: "upload_try rt net today ctx [] =
      (case g of Inl e \<Rightarrow> (Inl e, tr2)
       | Inr github \<Rightarrow>
           (Inr (successResponse [(''message'', JStr (''Uploaded to '' @ toUpperCase rt (toLowerCase rt cls))),
                                  (''github'', github), (''drive'', JNull)]), tr2))"
    using upload_try_after_repo [OF tok form repo [unfolded user_def], where today = today] question nofile up
    by (simp add: user_def field_text_def split: sum.splits)
  from uploadFile_calls [OF up] obtain extra where
    calls: "tr2 = tr1 @ [\<lparr>req_method = ''GET'', req_url = fileUrl,
                       req_headers = githubHeaders token False, req_body = None\<rparr>,
                     \<lparr>req_method = ''PUT'', req_url = fileUrl,
                       req_headers = githubHeaders token True,
                       req_body = Some (JObj ([(''message'', JStr (''Add question: null to '' @ toUpperCase rt (toLowerCase rt cls))),
                                               (''content'', field_value (formData ''content'')),
                                               (''branch'', JStr ''main'')] @ extra))\<rparr>]"
    unfolding fileUrl_def by auto
  have tr: "snd (onRequestPost rt net today ctx) = tr2"
    using run by (simp add: onRequestPost_def split: sum.splits)
  show ?thesis
  proof (cases g)
    case (Inl e)
    with run have "reply_status (fst (onRequestPost rt net today ctx)) = 500"
      by (simp add: onRequestPost_def errorResponse_def)
    with tr calls show ?thesis by simp
  next
    case (Inr github)
    with up uploadFile_returns obtain u s where
      "github = JObj [(''url'', u), (''sha'', s), (''path'', JStr ''questions/null'')]"
      by blast
    with Inr run have "get_prop (reply_body (fst (onRequestPost rt net today ctx))) ''github'' =
               Inr (JObj [(''url'', u), (''sha'', s), (''path'', JStr ''questions/null'')])"
      by (simp add: onRequestPost_def successResponse_def)
    with tr calls show ?thesis by simp
  qed
qed

theorem question_without_filename_witness:
  "GITHUB_TOKEN (ctx_env (ctx_of (form_question(''filename'' := None)))) = Some ''t0k'' \<and>
   ''t0k'' \<noteq> [] \<and>
   ctx_formData (ctx_of (form_question(''filename'' := None))) = Inr (form_question(''filename'' := None)) \<and>
   (form_question(''filename'' := None)) ''class'' = Some ''XI-A'' \<and>
   or_default ((form_question(''filename'' := None)) ''type'') ''question'' \<noteq> ''answer'' \<and>
   (form_question(''filename'' := None)) ''filename'' = None \<and>
   (\<exists>extra.
      snd (onRequestPost ascii_runtime (scripted (Inr resp_found) (Inr resp_stored) offline) ''2024-05-02''
             (ctx_of (form_question(''filename'' := None)))) =
        [\<lparr>req_method = ''GET'', req_url = ''https://api.github.com/repos/iitjeelf/xi-a'',
          req_headers = githubHeaders ''t0k'' False, req_body = None\<rparr>,
         \<lparr>req_method = ''GET'',
          req_url = ''https://api.github.com/repos/iitjeelf/xi-a/contents/questions/null'',
          req_headers = githubHeaders ''t0k'' False, req_body = None\<rparr>,
         \<lparr>req_method = ''PUT'',
          req_url = ''https://api.github.com/repos/iitjeelf/xi-a/contents/questions/null'',
          req_headers = githubHeaders ''t0k'' True,
          req_body = Some (JObj ([(''message'', JStr ''Add question: null to XI-A''),
                                  (''content'', JStr ''Yw==''),
                                  (''branch'', JStr ''main'')] @ extra))\<rparr>]) \<and>
   reply_status (fst (onRequestPost ascii_runtime (scripted (Inr resp_found) (Inr resp_stored) offline) ''2024-05-02''
                        (ctx_of (form_question(''filename'' := None))))) = 200 \<and>
   (\<exists>u s. get_prop (reply_body (fst (onRequestPost ascii_runtime (scripted (Inr resp_found) (Inr resp_stored) offline)
                                       ''2024-05-02'' (ctx_of (form_question(''filename'' := None))))))
             ''github'' =
      Inr (JObj [(''url'', u), (''sha'', s), (''path'', JStr ''questions/null'')]))"
proof -
  have tok: "GITHUB_TOKEN (ctx_env (ctx_of (form_question(''filename'' := None)))) = Some ''t0k''"
    "''t0k'' \<noteq> []"
    by (simp_all add: ctx_of_simps)
  have form: "ctx_formData (ctx_of (form_question(''filename'' := None)))
      = Inr (form_question(''filename'' := None))"
    "(form_question(''filename'' := None)) ''class'' = Some ''XI-A''"
    by (simp_all add: ctx_of_simps form_question_def)
  have question: "or_default ((form_question(''filename'' := None)) ''type'') ''question'' \<noteq> ''answer''"
    by (simp add: form_question_def or_default_def)
  have nofile: "(form_question(''filename'' := None)) ''filename'' = None"
    by simp
  have repo: "ensureRepo ascii_runtime (scripted (Inr resp_found) (Inr resp_stored) offline)
        (or_default (GITHUB_USER (ctx_env (ctx_of (form_question(''filename'' := None))))) ''iitjeelf'')
        (toLowerCase ascii_runtime ''XI-A'') ''t0k'' [] =
      (Inr True,
       [\<lparr>req_method = ''GET'', req_url = ''https://api.github.com/repos/iitjeelf/xi-a'',
         req_headers = githubHeaders ''t0k'' False, req_body = None\<rparr>])"
    by (simp add: run_values ensureRepo_def fetch_def scripted_def resp_found_def ok_def Let_def
          or_default_def ctx_of_simps)
  have ok: "reply_status (fst (onRequestPost ascii_runtime (scripted (Inr resp_found) (Inr resp_stored) offline)
                        ''2024-05-02'' (ctx_of (form_question(''filename'' := None))))) = 200"
    by code_simp
  note T = question_without_filename [OF tok form question nofile repo, where today = "''2024-05-02''"]
  from T ok tok form question nofile show ?thesis
    by (simp add: run_values or_default_def ctx_of_simps form_question_def field_value_def)
qed

subsection \<open>Absent class field\<close>

text \<open>
  Claim C10. When the form has no \<^verbatim>\<open>class\<close> field, the handler makes no outbound call and
  answers with status 500 and \<^verbatim>\<open>success: false\<close>. With a token configured, the \<^verbatim>\<open>try\<close>
  block throws the TypeError of \<^verbatim>\<open>null.toLowerCase()\<close> and the single \<^verbatim>\<open>catch\<close> turns it
  into the failure envelope carrying that message.
\<close>

theorem absent_class_fails_without_calls:
  assumes "ctx_formData ctx = Inr formData" and "formData ''class'' = None"
  shows "snd (onRequestPost rt net today ctx) = [] \<and>
         reply_status (fst (onRequestPost rt net today ctx)) = 500 \<and>
         get_prop (reply_body (fst (onRequestPost rt net today ctx))) ''success'' = Inr (JBool False) \<and>
         (\<forall>token. GITHUB_TOKEN (ctx_env ctx) = Some token \<and> token \<noteq> [] \<longrightarrow>
            upload_try rt net today ctx [] =
              (Inl (Exn (''Cannot read properties of null (reading '' @ [CHR 0x27] @ ''toLowerCase''
                           @ [CHR 0x27] @ '')'')), []) \<and>
            onRequestPost rt net today ctx =
              (\<lparr>reply_status = 500,
                reply_headers = [(''Content-Type'', ''application/json''),
                                 (''Access-Control-Allow-Origin'', ''*'')],
                reply_body = JObj [(''success'', JBool False),
                                   (''message'', JStr (''Cannot read properties of null (reading ''
                                                        @ [CHR 0x27] @ ''toLowerCase'' @ [CHR 0x27]
                                                        @ '')''))]\<rparr>, []))"
  using assms
  by (auto simp add: onRequestPost_def upload_try_def errorResponse_def Let_def split: option.splits)

theorem absent_class_fails_without_calls_witness:
  "ctx_formData (ctx_of (form_answer(''class'' := None))) = Inr (form_answer(''class'' := None)) \<and>
   (form_answer(''class'' := None)) ''class'' = None \<and>
   GITHUB_TOKEN (ctx_env (ctx_of (form_answer(''class'' := None)))) = Some ''t0k'' \<and>
   onRequestPost ascii_runtime (scripted (Inr resp_found) (Inr resp_stored) (Inr resp_drive)) ''2024-05-02''
     (ctx_of (form_answer(''class'' := None))) =
     (\<lparr>reply_status = 500,
       reply_headers = [(''Content-Type'', ''application/json''), (''Access-Control-Allow-Origin'', ''*'')],
       reply_body = JObj [(''success'', JBool False),
                          (''message'', JStr (''Cannot read properties of null (reading '' @ [CHR 0x27]
                                               @ ''toLowerCase'' @ [CHR 0x27] @ '')''))]\<rparr>,
      [])"
proof -
  have form: "ctx_formData (ctx_of (form_answer(''class'' := None))) = Inr (form_answer(''class'' := None))"
    by (simp add: ctx_of_simps)
  have absent: "(form_answer(''class'' := None)) ''class'' = None"
    by simp
  have tok: "GITHUB_TOKEN (ctx_env (ctx_of (form_answer(''class'' := None)))) = Some ''t0k''"
    by (simp add: ctx_of_simps)
  from absent_class_fails_without_calls [OF form absent, where rt = ascii_runtime
      and net = "scripted (Inr resp_found) (Inr resp_stored) (Inr resp_drive)"
      and today = "''2024-05-02''"]
    form absent tok
  show ?thesis by simp
qed


end
